theory Spec2Isabelle
  imports Main
begin

section \<open>The record store of db.py\<close>

text \<open>
  The three tables of \<^verbatim>\<open>init_db\<close> are lists of rows. The timestamp columns
  \<^verbatim>\<open>created_at\<close> are left out: no statement of the program compares them with
  anything but each other. \<^verbatim>\<open>coins\<close>, \<^verbatim>\<open>is_premium\<close> and
  \<^verbatim>\<open>is_banned\<close> have defaults and no statement of the program writes NULL there,
  so they carry plain values; the profile columns are NULL until set.
\<close>

record user_row =
  u_user_id :: int
  u_name :: string
  u_coins :: int
  u_is_premium :: bool
  u_is_banned :: bool
  u_referral_code :: string
  u_referred_by :: "string option"

record profile_row =
  p_user_id :: int
  p_gender :: "string option"
  p_age :: "int option"
  p_bio :: "string option"
  p_photo_id :: "string option"
  p_location :: "string option"

record like_row =
  liker_id :: int
  liked_id :: int

record db =
  users :: "user_row list"
  profiles :: "profile_row list"
  likes :: "like_row list"

text \<open>
  What a call can raise. \<^verbatim>\<open>DataError\<close> is the driver's error for a query
  argument that does not fit the parameter's SQL type (raised before the statement is
  sent). The next five are raised by the server: a violated constraint, an INTEGER
  result out of range, a statement the server refuses (a name that is no column of the
  table, or no statement at all). \<^verbatim>\<open>OtherStatement\<close> marks the one place where
  the model stops (see \<^verbatim>\<open>update_profile\<close>). The last four are Python's.
\<close>

datatype error =
    DataError
  | UniqueViolation
  | NotNullViolation
  | ForeignKeyViolation
  | NumericValueOutOfRange
  | StatementRefused
  | OtherStatement
  | ValueError
  | KeyError
  | IndexError
  | AttributeError

text \<open>
  What \<^verbatim>\<open>except ValueError\<close> catches: Python's own ValueError. The errors of the
  driver and of the server, \<^verbatim>\<open>DataError\<close> among them, are database errors and pass
  through such a clause.
\<close>

definition is_value_error :: "error \<Rightarrow> bool" where
  "is_value_error e = (e = ValueError)"

text \<open>The ranges of the SQL types INTEGER and BIGINT.\<close>

definition int4_ok :: "int \<Rightarrow> bool" where
  "int4_ok n = (- 2147483648 \<le> n \<and> n \<le> 2147483647)"

definition int8_ok :: "int \<Rightarrow> bool" where
  "int8_ok n = (- 9223372036854775808 \<le> n \<and> n \<le> 9223372036854775807)"


text \<open>Python's truth test on an optional string and on an optional integer.\<close>

fun truthy_str :: "string option \<Rightarrow> bool" where
  "truthy_str None = False"
| "truthy_str (Some s) = (s \<noteq> [])"

fun truthy_int :: "int option \<Rightarrow> bool" where
  "truthy_int None = False"
| "truthy_int (Some i) = (i \<noteq> 0)"

subsection \<open>Single statements\<close>

definition has_user :: "db \<Rightarrow> int \<Rightarrow> bool" where
  "has_user d uid = (uid \<in> set (map u_user_id (users d)))"

definition has_profile :: "db \<Rightarrow> int \<Rightarrow> bool" where
  "has_profile d uid = (uid \<in> set (map p_user_id (profiles d)))"

text \<open>\<^verbatim>\<open>SELECT EXISTS(SELECT 1 FROM users WHERE user_id = $1)\<close>\<close>

definition user_exists :: "db \<Rightarrow> int \<Rightarrow> error + bool" where
  "user_exists d user_id =
     (if \<not> int8_ok user_id then Inl DataError else Inr (has_user d user_id))"

text \<open>
  \<^verbatim>\<open>fetchval\<close> of a one-column query: the first row's value, None when no row
  matches.
\<close>

fun fetch_first :: "('r \<Rightarrow> bool) \<Rightarrow> ('r \<Rightarrow> 'a) \<Rightarrow> 'r list \<Rightarrow> 'a option" where
  "fetch_first P f [] = None"
| "fetch_first P f (r # rs) = (if P r then Some (f r) else fetch_first P f rs)"

definition coins_of :: "db \<Rightarrow> int \<Rightarrow> int option" where
  "coins_of d uid = fetch_first (\<lambda>u. u_user_id u = uid) u_coins (users d)"

definition user_id_of_code :: "db \<Rightarrow> string \<Rightarrow> int option" where
  "user_id_of_code d code = fetch_first (\<lambda>u. u_referral_code u = code) u_user_id (users d)"

text \<open>
  \<^verbatim>\<open>UPDATE users SET coins = coins + $1 WHERE user_id = $2\<close>, on a connection of
  its own (autocommit). \<^verbatim>\<open>coins\<close> is an INTEGER column, so \<^verbatim>\<open>$1\<close> is an
  INTEGER parameter and the sum must stay in 32 bits: the server raises otherwise and
  the statement changes nothing. No row with that id: the statement updates no row.
\<close>

definition add_coins :: "db \<Rightarrow> int \<Rightarrow> int \<Rightarrow> error + db" where
  "add_coins d user_id amount =
     (if \<not> int4_ok amount \<or> \<not> int8_ok user_id then Inl DataError
      else if list_ex (\<lambda>u. u_user_id u = user_id \<and> \<not> int4_ok (u_coins u + amount)) (users d)
        then Inl NumericValueOutOfRange
      else Inr (d\<lparr>users :=
        map (\<lambda>u. if u_user_id u = user_id then u\<lparr>u_coins := u_coins u + amount\<rparr> else u)
          (users d)\<rparr>))"

subsection \<open>create_user\<close>

text \<open>
  The row \<^verbatim>\<open>INSERT INTO users (user_id, name, referral_code, referred_by)\<close>
  writes: the other columns take their defaults, \<^verbatim>\<open>coins\<close> 100.
\<close>

definition new_user_row :: "int \<Rightarrow> string \<Rightarrow> string \<Rightarrow> string option \<Rightarrow> user_row" where
  "new_user_row user_id name user_referral_code referral_code =
     \<lparr>u_user_id = user_id, u_name = name, u_coins = 100, u_is_premium = False,
      u_is_banned = False, u_referral_code = user_referral_code,
      u_referred_by = referral_code\<rparr>"

definition new_profile_row :: "int \<Rightarrow> profile_row" where
  "new_profile_row user_id =
     \<lparr>p_user_id = user_id, p_gender = None, p_age = None, p_bio = None,
      p_photo_id = None, p_location = None\<rparr>"

text \<open>
  The two inserts, with the constraints of the schema: \<^verbatim>\<open>user_id\<close> is the primary
  key of both tables and \<^verbatim>\<open>referral_code\<close> is UNIQUE.
\<close>

definition insert_user :: "db \<Rightarrow> user_row \<Rightarrow> error + db" where
  "insert_user d r =
     (if has_user d (u_user_id r) \<or> u_referral_code r \<in> set (map u_referral_code (users d))
      then Inl UniqueViolation
      else Inr (d\<lparr>users := users d @ [r]\<rparr>))"

definition insert_profile :: "db \<Rightarrow> int \<Rightarrow> error + db" where
  "insert_profile d user_id =
     (if has_profile d user_id then Inl UniqueViolation
      else Inr (d\<lparr>profiles := profiles d @ [new_profile_row user_id]\<rparr>))"

text \<open>
  \<^verbatim>\<open>create_user(user_id, name, referral_code)\<close>. The fourth argument is the token
  \<^verbatim>\<open>str(uuid.uuid4())[:8]\<close> the call draws for the new user.

  The two inserts and the lookup of the referrer run in a transaction on the call's
  connection: the lookup sees the rows just inserted. \<^verbatim>\<open>add_coins\<close> opens its own
  connection: it sees and changes the committed state \<open>d\<close>, and its update is committed
  at once, before the transaction is. An exception inside the block rolls the
  transaction back and leaves the call.

  The result is the list of states committed during the call, in order, and whether the
  call returned or raised.
\<close>

definition create_user_run ::
  "db \<Rightarrow> int \<Rightarrow> string \<Rightarrow> string option \<Rightarrow> string \<Rightarrow> db list \<times> (error + unit)" where
  "create_user_run d user_id name referral_code user_referral_code =
     (case user_exists d user_id of
        Inl e \<Rightarrow> ([], Inl e)
      | Inr True \<Rightarrow> ([], Inr ())
      | Inr False \<Rightarrow>
         (let r = new_user_row user_id name user_referral_code referral_code;
              commit = (\<lambda>c. c\<lparr>users := users c @ [r],
                               profiles := profiles c @ [new_profile_row user_id]\<rparr>)
          in case insert_user d r of
               Inl e \<Rightarrow> ([], Inl e)
             | Inr t1 \<Rightarrow>
                (case insert_profile t1 user_id of
                   Inl e \<Rightarrow> ([], Inl e)
                 | Inr t2 \<Rightarrow>
                    if truthy_str referral_code then
                      (let referrer_id = user_id_of_code t2 (the referral_code) in
                       if truthy_int referrer_id then
                         (case add_coins d (the referrer_id) 50 of
                            Inl e \<Rightarrow> ([], Inl e)
                          | Inr d2 \<Rightarrow> ([d2, commit d2], Inr ()))
                       else ([commit d], Inr ()))
                    else ([commit d], Inr ()))))"

text \<open>The store after the call, when it returns.\<close>

definition create_user :: "db \<Rightarrow> int \<Rightarrow> string \<Rightarrow> string option \<Rightarrow> string \<Rightarrow> error + db" where
  "create_user d user_id name referral_code user_referral_code =
     (case create_user_run d user_id name referral_code user_referral_code of
        (cs, Inl e) \<Rightarrow> Inl e
      | (cs, Inr u) \<Rightarrow> Inr (last (d # cs)))"

subsection \<open>What the schema keeps true of a store\<close>

text \<open>
  The primary keys, the UNIQUE constraint on \<^verbatim>\<open>referral_code\<close>, the foreign key
  of \<^verbatim>\<open>profiles\<close> and the ranges of the BIGINT and INTEGER columns.
\<close>

definition wf_store :: "db \<Rightarrow> bool" where
  "wf_store d =
     (distinct (map u_user_id (users d)) \<and> distinct (map u_referral_code (users d)) \<and>
      distinct (map p_user_id (profiles d)) \<and>
      list_all (\<lambda>p. has_user d (p_user_id p)) (profiles d) \<and>
      list_all (\<lambda>u. int8_ok (u_user_id u) \<and> int4_ok (u_coins u)) (users d))"

subsection \<open>update_profile\<close>

text \<open>
  The value passed for the column: a Python string, a Python integer or None.
\<close>

datatype pyval = PStr string | PInt int | PNone

text \<open>
  What the driver does with an argument for a TEXT, an INTEGER and a BIGINT parameter.
\<close>

fun text_arg :: "pyval \<Rightarrow> error + string option" where
  "text_arg (PStr s) = Inr (Some s)"
| "text_arg PNone = Inr None"
| "text_arg (PInt i) = Inl DataError"

fun int4_arg :: "pyval \<Rightarrow> error + int option" where
  "int4_arg (PInt i) = (if int4_ok i then Inr (Some i) else Inl DataError)"
| "int4_arg PNone = Inr None"
| "int4_arg (PStr s) = Inl DataError"

fun int8_arg :: "pyval \<Rightarrow> error + int option" where
  "int8_arg (PInt i) = (if int8_ok i then Inr (Some i) else Inl DataError)"
| "int8_arg PNone = Inr None"
| "int8_arg (PStr s) = Inl DataError"

text \<open>
  \<^verbatim>\<open>UPDATE profiles SET {field} = $1 WHERE user_id = $2\<close>: the text of
  \<^verbatim>\<open>field\<close> is spliced into the statement, unchecked. The model covers the texts
  that are a plain name (letters a to z in either case, digits and the underscore, not
  starting with a digit). The server reads such a name with its upper-case letters
  folded to lower case; the name is then either one of the six columns of
  \<^verbatim>\<open>profiles\<close> or the server refuses the statement. For any other text (a quoted
  name, or more than a name) the statement is whatever the text makes it; the model
  stops there and answers \<^verbatim>\<open>OtherStatement\<close>.
\<close>

datatype column = CUserId | CGender | CAge | CBio | CPhotoId | CLocation

definition is_name :: "string \<Rightarrow> bool" where
  "is_name s = (s \<noteq> [] \<and>
      list_all (\<lambda>c. c \<in> set
        ''abcdefghijklmnopqrstuvwxyzABCDEFGHIJKLMNOPQRSTUVWXYZ_0123456789'') s
      \<and> hd s \<notin> set ''0123456789'')"

definition fold_case :: "char \<Rightarrow> char" where
  "fold_case c =
     (case map_of (zip ''ABCDEFGHIJKLMNOPQRSTUVWXYZ'' ''abcdefghijklmnopqrstuvwxyz'') c of
        None \<Rightarrow> c
      | Some l \<Rightarrow> l)"

definition profiles_column :: "string \<Rightarrow> column option" where
  "profiles_column field =
     (let name = map fold_case field
      in if name = ''user_id'' then Some CUserId
      else if name = ''gender'' then Some CGender
      else if name = ''age'' then Some CAge
      else if name = ''bio'' then Some CBio
      else if name = ''photo_id'' then Some CPhotoId
      else if name = ''location'' then Some CLocation
      else None)"

definition update_rows :: "db \<Rightarrow> int \<Rightarrow> (profile_row \<Rightarrow> profile_row) \<Rightarrow> db" where
  "update_rows d user_id f =
     d\<lparr>profiles := map (\<lambda>p. if p_user_id p = user_id then f p else p) (profiles d)\<rparr>"

text \<open>
  Setting the key column itself is bound by the primary key and by the foreign key on
  \<^verbatim>\<open>users\<close>.
\<close>

definition set_user_id :: "db \<Rightarrow> int \<Rightarrow> int option \<Rightarrow> error + db" where
  "set_user_id d user_id v =
     (if \<not> has_profile d user_id then Inr d
      else case v of
        None \<Rightarrow> Inl NotNullViolation
      | Some n \<Rightarrow>
         if n = user_id then Inr d
         else if has_profile d n \<or> 1 < length (filter (\<lambda>p. p_user_id p = user_id) (profiles d))
           then Inl UniqueViolation
         else if \<not> has_user d n then Inl ForeignKeyViolation
         else Inr (update_rows d user_id (\<lambda>p. p\<lparr>p_user_id := n\<rparr>)))"

definition update_profile :: "db \<Rightarrow> int \<Rightarrow> string \<Rightarrow> pyval \<Rightarrow> error + db" where
  "update_profile d user_id field v =
     (if \<not> is_name field then Inl OtherStatement
      else case profiles_column field of
        None \<Rightarrow> Inl StatementRefused
      | Some col \<Rightarrow>
         if \<not> int8_ok user_id then Inl DataError
         else (case col of
            CUserId \<Rightarrow> (case int8_arg v of Inl e \<Rightarrow> Inl e | Inr n \<Rightarrow> set_user_id d user_id n)
          | CGender \<Rightarrow> (case text_arg v of Inl e \<Rightarrow> Inl e
                        | Inr s \<Rightarrow> Inr (update_rows d user_id (\<lambda>p. p\<lparr>p_gender := s\<rparr>)))
          | CAge \<Rightarrow> (case int4_arg v of Inl e \<Rightarrow> Inl e
                        | Inr n \<Rightarrow> Inr (update_rows d user_id (\<lambda>p. p\<lparr>p_age := n\<rparr>)))
          | CBio \<Rightarrow> (case text_arg v of Inl e \<Rightarrow> Inl e
                        | Inr s \<Rightarrow> Inr (update_rows d user_id (\<lambda>p. p\<lparr>p_bio := s\<rparr>)))
          | CPhotoId \<Rightarrow> (case text_arg v of Inl e \<Rightarrow> Inl e
                        | Inr s \<Rightarrow> Inr (update_rows d user_id (\<lambda>p. p\<lparr>p_photo_id := s\<rparr>)))
          | CLocation \<Rightarrow> (case text_arg v of Inl e \<Rightarrow> Inl e
                        | Inr s \<Rightarrow> Inr (update_rows d user_id (\<lambda>p. p\<lparr>p_location := s\<rparr>)))))"

subsection \<open>get_user_profile, is_banned, set_ban_status\<close>

text \<open>
  The row of \<^verbatim>\<open>get_user_profile\<close>: the join of the user with the profile.
\<close>

record full_profile =
  f_name :: string
  f_coins :: int
  f_is_premium :: bool
  f_gender :: "string option"
  f_age :: "int option"
  f_bio :: "string option"
  f_photo_id :: "string option"
  f_location :: "string option"

definition join_row :: "user_row \<Rightarrow> profile_row \<Rightarrow> full_profile" where
  "join_row u p =
     \<lparr>f_name = u_name u, f_coins = u_coins u, f_is_premium = u_is_premium u,
      f_gender = p_gender p, f_age = p_age p, f_bio = p_bio p, f_photo_id = p_photo_id p,
      f_location = p_location p\<rparr>"

definition get_user_profile :: "db \<Rightarrow> int \<Rightarrow> error + full_profile option" where
  "get_user_profile d user_id =
     (if \<not> int8_ok user_id then Inl DataError
      else Inr (case [join_row u p. u \<leftarrow> users d, p \<leftarrow> profiles d,
                        u_user_id u = p_user_id p \<and> u_user_id u = user_id] of
                  [] \<Rightarrow> None
                | r # rs \<Rightarrow> Some r))"

definition is_banned :: "db \<Rightarrow> int \<Rightarrow> error + bool" where
  "is_banned d user_id =
     (if \<not> int8_ok user_id then Inl DataError
      else Inr (case fetch_first (\<lambda>u. u_user_id u = user_id) u_is_banned (users d) of
                  None \<Rightarrow> False
                | Some banned \<Rightarrow> banned))"

definition set_ban_status :: "db \<Rightarrow> int \<Rightarrow> bool \<Rightarrow> error + db" where
  "set_ban_status d user_id status =
     (if \<not> int8_ok user_id then Inl DataError
      else Inr (d\<lparr>users :=
        map (\<lambda>u. if u_user_id u = user_id then u\<lparr>u_is_banned := status\<rparr> else u) (users d)\<rparr>))"

subsection \<open>search_users\<close>

text \<open>
  The rows the WHERE clause keeps, in table order. A NULL gender or age matches
  nothing.
\<close>

definition age_between :: "int option \<Rightarrow> int \<Rightarrow> int \<Rightarrow> bool" where
  "age_between a lo hi = (case a of None \<Rightarrow> False | Some n \<Rightarrow> lo \<le> n \<and> n \<le> hi)"

definition matching :: "db \<Rightarrow> int \<Rightarrow> string \<Rightarrow> int \<Rightarrow> int \<Rightarrow> int list" where
  "matching d searcher_id gender min_age max_age =
     [p_user_id p. p \<leftarrow> profiles d, u \<leftarrow> users d,
        p_user_id p = u_user_id u \<and> p_gender p = Some gender \<and>
        age_between (p_age p) min_age max_age \<and> p_user_id p \<noteq> searcher_id \<and>
        u_is_banned u = False]"

text \<open>
  \<^verbatim>\<open>ORDER BY RANDOM()\<close>: the server draws a number for every row and sorts by it. The
  draws are the argument \<^verbatim>\<open>rnd\<close> (the number drawn for the k-th row), so the result is
  some rearrangement of the rows whatever is drawn. \<^verbatim>\<open>LIMIT 20\<close> keeps the first 20.
\<close>

definition order_by_random :: "(nat \<Rightarrow> nat) \<Rightarrow> 'a list \<Rightarrow> 'a list" where
  "order_by_random rnd rows = map snd (sort_key fst (zip (map rnd [0..<length rows]) rows))"

definition search_users ::
  "(nat \<Rightarrow> nat) \<Rightarrow> db \<Rightarrow> int \<Rightarrow> string \<Rightarrow> int \<Rightarrow> int \<Rightarrow> error + int list" where
  "search_users rnd d searcher_id gender min_age max_age =
     (if \<not> int4_ok min_age \<or> \<not> int4_ok max_age \<or> \<not> int8_ok searcher_id then Inl DataError
      else Inr (take 20 (order_by_random rnd (matching d searcher_id gender min_age max_age))))"

section \<open>Python strings and integers\<close>

text \<open>
  A text is a list of characters with codes below 256. \<^verbatim>\<open>str.isspace\<close> on those
  codes, \<^verbatim>\<open>str.split()\<close> and \<^verbatim>\<open>str.split(sep)\<close>.
\<close>

definition py_isspace :: "char \<Rightarrow> bool" where
  "py_isspace c = (of_char c \<in> {9, 10, 11, 12, 13, 28, 29, 30, 31, 32, 133, 160 :: nat})"

fun split_ws :: "string \<Rightarrow> string \<Rightarrow> string list" where
  "split_ws [] cur = (if cur = [] then [] else [rev cur])"
| "split_ws (c # cs) cur =
     (if py_isspace c then (if cur = [] then split_ws cs [] else rev cur # split_ws cs [])
      else split_ws cs (c # cur))"

definition py_split :: "string \<Rightarrow> string list" where
  "py_split s = split_ws s []"

fun split_on :: "char \<Rightarrow> string \<Rightarrow> string \<Rightarrow> string list" where
  "split_on sep [] cur = [rev cur]"
| "split_on sep (c # cs) cur =
     (if c = sep then rev cur # split_on sep cs [] else split_on sep cs (c # cur))"

definition py_split_on :: "char \<Rightarrow> string \<Rightarrow> string list" where
  "py_split_on sep s = split_on sep s []"

text \<open>
  \<^verbatim>\<open>int(s)\<close>: surrounding white space is dropped, then an optional sign, then
  decimal digits, where single underscores may stand between digits. None stands for
  ValueError. The white space \<^verbatim>\<open>int\<close> drops is narrower than
  \<^verbatim>\<open>str.isspace\<close>: the four separator codes 28 to 31 split a text in
  \<^verbatim>\<open>str.split()\<close> but make \<^verbatim>\<open>int\<close> raise. (A message of the chat is at most
  4096 characters, below the length at which newer Pythons refuse the conversion.)
\<close>

definition int_isspace :: "char \<Rightarrow> bool" where
  "int_isspace c = (of_char c \<in> {9, 10, 11, 12, 13, 32, 133, 160 :: nat})"

definition int_strip :: "string \<Rightarrow> string" where
  "int_strip s = rev (dropWhile int_isspace (rev (dropWhile int_isspace s)))"

definition digit_val :: "char \<Rightarrow> nat option" where
  "digit_val c = (let n = of_char c in if 48 \<le> n \<and> n \<le> (57::nat) then Some (n - 48) else None)"

fun parse_digits :: "string \<Rightarrow> nat \<Rightarrow> nat option" where
  "parse_digits [] acc = Some acc"
| "parse_digits (c # cs) acc =
     (if c = CHR ''_'' then
        (case cs of
           [] \<Rightarrow> None
         | c2 # cs2 \<Rightarrow>
            (case digit_val c2 of None \<Rightarrow> None | Some v \<Rightarrow> parse_digits cs2 (10 * acc + v)))
      else (case digit_val c of None \<Rightarrow> None | Some v \<Rightarrow> parse_digits cs (10 * acc + v)))"

definition parse_nat :: "string \<Rightarrow> nat option" where
  "parse_nat s =
     (case s of
        [] \<Rightarrow> None
      | c # cs \<Rightarrow> (case digit_val c of None \<Rightarrow> None | Some v \<Rightarrow> parse_digits cs v))"

definition py_int :: "string \<Rightarrow> int option" where
  "py_int s =
     (case int_strip s of
        [] \<Rightarrow> None
      | c # cs \<Rightarrow>
         if c = CHR ''-'' then map_option (\<lambda>n. - int n) (parse_nat cs)
         else if c = CHR ''+'' then map_option int (parse_nat cs)
         else map_option int (parse_nat (c # cs)))"

text \<open>
  \<^verbatim>\<open>str(i)\<close>, as the f-strings of main.py use it.
\<close>

definition digit_char :: "nat \<Rightarrow> char" where
  "digit_char n = ''0123456789'' ! n"

function str_nat :: "nat \<Rightarrow> string" where
  "str_nat n = (if n < 10 then [digit_char n] else str_nat (n div 10) @ [digit_char (n mod 10)])"
  by pat_completeness auto
termination
  by (relation "measure id") auto

definition py_str :: "int \<Rightarrow> string" where
  "py_str i = (if i < 0 then CHR ''-'' # str_nat (nat (- i)) else str_nat (nat i))"

section \<open>The handlers of main.py\<close>

text \<open>
  The conversation states, with \<^verbatim>\<open>END\<close> for \<^verbatim>\<open>ConversationHandler.END\<close> (no
  conversation: the user is idle).
\<close>

datatype conv_state =
    GENDER | AGE | BIO | PHOTO | LOCATION | MENU
  | SEARCH_GENDER | SEARCH_AGE_MIN | SEARCH_AGE_MAX | VIEW_PROFILE
  | ADMIN_MENU | ADMIN_GRANT_COINS | ADMIN_GRANT_PREMIUM | ADMIN_USER_LIST
  | ADMIN_BAN_USER | ADMIN_UNBAN_USER
  | END

text \<open>
  \<^verbatim>\<open>context.user_data\<close>: the four keys the handlers use, each absent or present.
  The candidates are kept as their ids (the source keeps one-field rows).
\<close>

record user_data =
  search_gender :: "string option"
  search_age_min :: "int option"
  search_results :: "int list option"
  search_index :: "int option"

text \<open>
  What a handler sends through the chat transport, in order. A profile is sent as the
  row it is rendered from, with the callback data of its two buttons. The transport is
  taken to deliver: its own failures are outside the model.
\<close>

datatype sent =
    ReplyText string
  | ReplyProfile full_profile "string list"
  | SendPhoto int string full_profile "string list"
  | SendMessage int string
  | EditMessageText string
  | DeleteMessage
  | Answer

text \<open>
  What a handler leaves behind: the messages sent, the session data, the store, and
  the state it returns or the exception it raises. Changes made before an exception
  stay.
\<close>

record result =
  out_sent :: "sent list"
  out_data :: user_data
  out_store :: db
  out_ret :: "error + conv_state"

text \<open>
  \<^verbatim>\<open>results[index]\<close>: an index from 0 up to the length reads from the front, a
  negative one down to minus the length reads from the back, any other raises.
\<close>

definition py_get :: "'a list \<Rightarrow> int \<Rightarrow> error + 'a" where
  "py_get results index =
     (if 0 \<le> index \<and> index < int (length results) then Inr (results ! nat index)
      else if index < 0 \<and> - int (length results) \<le> index
        then Inr (results ! nat (int (length results) + index))
      else Inl IndexError)"

subsection \<open>Profile creation: age, and cancel\<close>

definition age :: "db \<Rightarrow> user_data \<Rightarrow> int \<Rightarrow> string \<Rightarrow> result" where
  "age d ud user_id text =
     (let retry = \<lparr>out_sent = [ReplyText ''Please enter a valid age (between 18 and 99).''],
                    out_data = ud, out_store = d, out_ret = Inr AGE\<rparr>
      in case py_int text of
           None \<Rightarrow> retry
         | Some user_age \<Rightarrow>
            if \<not> (18 \<le> user_age \<and> user_age \<le> 99) then retry
            else (case update_profile d user_id ''age'' (PInt user_age) of
                    Inl e \<Rightarrow>
                      if is_value_error e then retry
                      else \<lparr>out_sent = [], out_data = ud, out_store = d, out_ret = Inl e\<rparr>
                  | Inr d' \<Rightarrow>
                      \<lparr>out_sent = [ReplyText ''Got it. Now, write a short bio about yourself.''],
                       out_data = ud, out_store = d', out_ret = Inr BIO\<rparr>))"

text \<open>
  \<^verbatim>\<open>cancel\<close> is the fallback of all three conversation handlers.
\<close>

definition cancel :: "db \<Rightarrow> user_data \<Rightarrow> result" where
  "cancel d ud =
     \<lparr>out_sent = [ReplyText ''Operation cancelled.''], out_data = ud, out_store = d,
      out_ret = Inr END\<rparr>"

subsection \<open>Search and browsing\<close>

definition search_gender_handler :: "db \<Rightarrow> user_data \<Rightarrow> string \<Rightarrow> result" where
  "search_gender_handler d ud text =
     \<lparr>out_sent = [ReplyText ''What's the minimum age you're looking for?''],
      out_data = ud\<lparr>search_gender := Some text\<rparr>, out_store = d,
      out_ret = Inr SEARCH_AGE_MIN\<rparr>"

definition search_age_min_handler :: "db \<Rightarrow> user_data \<Rightarrow> string \<Rightarrow> result" where
  "search_age_min_handler d ud text =
     (let retry = \<lparr>out_sent = [ReplyText ''Please enter a valid age (between 18 and 99).''],
                    out_data = ud, out_store = d, out_ret = Inr SEARCH_AGE_MIN\<rparr>
      in case py_int text of
           None \<Rightarrow> retry
         | Some min_age \<Rightarrow>
            if \<not> (18 \<le> min_age \<and> min_age \<le> 99) then retry
            else \<lparr>out_sent = [ReplyText ''And the maximum age?''],
                  out_data = ud\<lparr>search_age_min := Some min_age\<rparr>, out_store = d,
                  out_ret = Inr SEARCH_AGE_MAX\<rparr>)"

text \<open>
  The callback data of the two buttons under a profile.
\<close>

definition like_next_keyboard :: "int \<Rightarrow> string list" where
  "like_next_keyboard target_user_id = [''like_'' @ py_str target_user_id, ''next_profile'']"

text \<open>
  \<^verbatim>\<open>view_profile(update, context)\<close> is called with the Update of a message (from
  \<^verbatim>\<open>search_age_max\<close>) and with the CallbackQuery of a button press (from
  \<^verbatim>\<open>profile_callback\<close>). Both have \<^verbatim>\<open>.message\<close>; only an Update has
  \<^verbatim>\<open>.effective_chat\<close> (a CallbackQuery has id, from_user, chat_instance, message,
  data, inline_message_id and game_short_name), so the photo branch raises
  AttributeError for a CallbackQuery.
\<close>

datatype sender = ViaUpdate int | ViaQuery

definition view_profile :: "db \<Rightarrow> user_data \<Rightarrow> sender \<Rightarrow> sent list \<times> (error + conv_state)" where
  "view_profile d ud upd =
     (let results = (case search_results ud of None \<Rightarrow> [] | Some r \<Rightarrow> r);
          index = (case search_index ud of None \<Rightarrow> 0 | Some i \<Rightarrow> i)
      in if results = [] \<or> int (length results) \<le> index
         then ([ReplyText ''No more profiles to show.''], Inr END)
         else (case py_get results index of
                 Inl e \<Rightarrow> ([], Inl e)
               | Inr target_user_id \<Rightarrow>
                  (case get_user_profile d target_user_id of
                     Inl e \<Rightarrow> ([], Inl e)
                   | Inr None \<Rightarrow> ([], Inl AttributeError)
                   | Inr (Some profile_data) \<Rightarrow>
                      if truthy_str (f_photo_id profile_data) then
                        (case upd of
                           ViaQuery \<Rightarrow> ([], Inl AttributeError)
                         | ViaUpdate chat_id \<Rightarrow>
                            ([SendPhoto chat_id (the (f_photo_id profile_data)) profile_data
                                (like_next_keyboard target_user_id)], Inr VIEW_PROFILE))
                      else ([ReplyProfile profile_data (like_next_keyboard target_user_id)],
                            Inr VIEW_PROFILE))))"

definition search_age_max ::
  "(nat \<Rightarrow> nat) \<Rightarrow> db \<Rightarrow> user_data \<Rightarrow> int \<Rightarrow> int \<Rightarrow> string \<Rightarrow> result" where
  "search_age_max rnd d ud user_id chat_id text =
     (let retry = (\<lambda>ms u. \<lparr>out_sent = ms @ [ReplyText
            ''Please enter a valid age greater than or equal to the minimum age.''],
            out_data = u, out_store = d, out_ret = Inr SEARCH_AGE_MAX\<rparr>);
          raise = (\<lambda>ms u e. if is_value_error e then retry ms u
            else \<lparr>out_sent = ms, out_data = u, out_store = d, out_ret = Inl e\<rparr>)
      in case py_int text of
           None \<Rightarrow> retry [] ud
         | Some max_age \<Rightarrow>
            (case search_age_min ud of
               None \<Rightarrow> raise [] ud KeyError
             | Some min_age \<Rightarrow>
                if \<not> (min_age \<le> max_age \<and> max_age \<le> 99) then retry [] ud
                else (case search_gender ud of
                   None \<Rightarrow> raise [] ud KeyError
                 | Some gender_pref \<Rightarrow>
                    (case search_users rnd d user_id gender_pref min_age max_age of
                       Inl e \<Rightarrow> raise [] ud e
                     | Inr results \<Rightarrow>
                        if results = [] then
                          \<lparr>out_sent = [ReplyText ''No users found matching your criteria.''],
                           out_data = ud, out_store = d, out_ret = Inr END\<rparr>
                        else
                          (let ud' = ud\<lparr>search_results := Some results,
                                         search_index := Some 0\<rparr>
                           in case view_profile d ud' (ViaUpdate chat_id) of
                                (ms, Inl e) \<Rightarrow> raise ms ud' e
                              | (ms, Inr s) \<Rightarrow>
                                 \<lparr>out_sent = ms, out_data = ud', out_store = d,
                                  out_ret = Inr VIEW_PROFILE\<rparr>)))))"

definition profile_callback :: "db \<Rightarrow> user_data \<Rightarrow> int \<Rightarrow> string \<Rightarrow> result" where
  "profile_callback d ud user_id data =
     (let raise = (\<lambda>ms u e. \<lparr>out_sent = ms, out_data = u, out_store = d, out_ret = Inl e\<rparr>);
          show_next = (\<lambda>ms u. case view_profile d u ViaQuery of
                (vs, Inl e) \<Rightarrow> raise (ms @ vs) u e
              | (vs, Inr s) \<Rightarrow> \<lparr>out_sent = ms @ vs, out_data = u, out_store = d,
                                out_ret = Inr VIEW_PROFILE\<rparr>)
      in if take 5 data = ''like_'' then
           (case py_get (py_split_on CHR ''_'' data) 1 of
              Inl e \<Rightarrow> raise [Answer] ud e
            | Inr t \<Rightarrow>
               (case py_int t of
                  None \<Rightarrow> raise [Answer] ud ValueError
                | Some target_user_id \<Rightarrow>
                   (let ms = [Answer,
                          SendMessage target_user_id
                            ''Someone liked your profile! You can view their profile by searching for them.'',
                          EditMessageText ''You liked this profile!'']
                    in case search_index ud of
                         None \<Rightarrow> raise ms ud KeyError
                       | Some i \<Rightarrow>
                          show_next (ms @ [SendMessage user_id ''Loading next profile...''])
                            (ud\<lparr>search_index := Some (i + 1)\<rparr>))))
         else if data = ''next_profile'' then
           (case search_index ud of
              None \<Rightarrow> raise [Answer] ud KeyError
            | Some i \<Rightarrow> show_next [Answer, DeleteMessage] (ud\<lparr>search_index := Some (i + 1)\<rparr>))
         else \<lparr>out_sent = [Answer], out_data = ud, out_store = d, out_ret = Inr VIEW_PROFILE\<rparr>)"

subsection \<open>Admin: granting coins\<close>

text \<open>
  \<^verbatim>\<open>db.is_admin\<close> is membership in the list read from the environment.
  \<^verbatim>\<open>admin_menu_command\<close> edits the message of a callback query; called for a text
  message by a user who is no admin, it finds no query.
\<close>

definition admin_menu_command :: "int list \<Rightarrow> int \<Rightarrow> bool \<Rightarrow> sent list \<times> (error + conv_state)" where
  "admin_menu_command admin_user_ids user_id has_query =
     (if user_id \<notin> set admin_user_ids then
        (if has_query then
           ([EditMessageText ''You are not authorized to use this command.''], Inr END)
         else ([], Inl AttributeError))
      else if has_query then ([EditMessageText ''Admin Menu:''], Inr ADMIN_MENU)
      else ([ReplyText ''Admin Menu:''], Inr ADMIN_MENU))"

definition admin_grant_coins :: "int list \<Rightarrow> db \<Rightarrow> user_data \<Rightarrow> int \<Rightarrow> string \<Rightarrow> result" where
  "admin_grant_coins admin_user_ids d ud user_id text =
     (let back = (\<lambda>ms d'. case admin_menu_command admin_user_ids user_id False of
                (vs, Inl e) \<Rightarrow> \<lparr>out_sent = ms @ vs, out_data = ud, out_store = d', out_ret = Inl e\<rparr>
              | (vs, Inr s) \<Rightarrow> \<lparr>out_sent = ms @ vs, out_data = ud, out_store = d',
                                out_ret = Inr ADMIN_MENU\<rparr>);
          invalid = back [ReplyText ''Invalid format. Please use: UserID Amount''] d;
          raise = (\<lambda>e. if is_value_error e then invalid
            else \<lparr>out_sent = [], out_data = ud, out_store = d, out_ret = Inl e\<rparr>)
      in case py_split text of
           [user_id_str, amount_str] \<Rightarrow>
             (case py_int user_id_str of
                None \<Rightarrow> invalid
              | Some target_user_id \<Rightarrow>
                 (case py_int amount_str of
                    None \<Rightarrow> invalid
                  | Some amount \<Rightarrow>
                     (case user_exists d target_user_id of
                        Inl e \<Rightarrow> raise e
                      | Inr False \<Rightarrow>
                         \<lparr>out_sent = [ReplyText ''User not found.''], out_data = ud,
                          out_store = d, out_ret = Inr ADMIN_MENU\<rparr>
                      | Inr True \<Rightarrow>
                         (case add_coins d target_user_id amount of
                            Inl e \<Rightarrow> raise e
                          | Inr d' \<Rightarrow>
                             back [ReplyText (''Successfully granted '' @ py_str amount @
                                      '' coins to user '' @ py_str target_user_id @ ''.''),
                                   SendMessage target_user_id (''An admin has granted you '' @
                                      py_str amount @ '' coins!'')] d'))))
         | _ \<Rightarrow> invalid)"

section \<open>Example states\<close>

definition store_bea :: db where
  "store_bea =
     \<lparr>users = [\<lparr>u_user_id = 7, u_name = ''Bea'', u_coins = 100, u_is_premium = False,
                u_is_banned = False, u_referral_code = ''7ab3c9d2'', u_referred_by = None\<rparr>],
      profiles = [new_profile_row 7], likes = []\<rparr>"

definition store_al :: db where
  "store_al =
     \<lparr>users = [\<lparr>u_user_id = 7, u_name = ''Bea'', u_coins = 150, u_is_premium = False,
                u_is_banned = False, u_referral_code = ''7ab3c9d2'', u_referred_by = None\<rparr>,
               \<lparr>u_user_id = 9, u_name = ''Al'', u_coins = 100, u_is_premium = False,
                u_is_banned = False, u_referral_code = ''0f1e2d3c'', u_referred_by = Some ''7ab3c9d2''\<rparr>],
      profiles = [new_profile_row 7, new_profile_row 9], likes = []\<rparr>"


definition store_rich :: db where
  "store_rich =
     \<lparr>users = [\<lparr>u_user_id = 7, u_name = ''Bea'', u_coins = 2147483647, u_is_premium = False,
                u_is_banned = False, u_referral_code = ''7ab3c9d2'', u_referred_by = None\<rparr>],
      profiles = [new_profile_row 7], likes = []\<rparr>"


definition age_of :: "db \<Rightarrow> int \<Rightarrow> int option option" where
  "age_of d uid = fetch_first (\<lambda>p. p_user_id p = uid) p_age (profiles d)"

definition store_asked :: db where
  "store_asked = store_bea\<lparr>profiles := [(new_profile_row 7)\<lparr>p_gender := Some ''Female''\<rparr>]\<rparr>"

definition no_data :: user_data where
  "no_data = \<lparr>search_gender = None, search_age_min = None, search_results = None,
     search_index = None\<rparr>"

definition store_club :: db where
  "store_club =
     \<lparr>users =
        [\<lparr>u_user_id = 1, u_name = ''Al'', u_coins = 100, u_is_premium = False,
          u_is_banned = False, u_referral_code = ''a1a1a1a1'', u_referred_by = None\<rparr>,
         \<lparr>u_user_id = 2, u_name = ''Bea'', u_coins = 100, u_is_premium = False,
          u_is_banned = False, u_referral_code = ''b2b2b2b2'', u_referred_by = None\<rparr>,
         \<lparr>u_user_id = 3, u_name = ''Cy'', u_coins = 100, u_is_premium = False,
          u_is_banned = True, u_referral_code = ''c3c3c3c3'', u_referred_by = None\<rparr>,
         \<lparr>u_user_id = 4, u_name = ''Di'', u_coins = 100, u_is_premium = False,
          u_is_banned = False, u_referral_code = ''d4d4d4d4'', u_referred_by = None\<rparr>,
         \<lparr>u_user_id = 5, u_name = ''Eve'', u_coins = 100, u_is_premium = False,
          u_is_banned = False, u_referral_code = ''e5e5e5e5'', u_referred_by = None\<rparr>],
      profiles =
        [\<lparr>p_user_id = 1, p_gender = Some ''Male'', p_age = Some 30, p_bio = Some ''hi'',
          p_photo_id = Some ''ph1'', p_location = Some ''Oslo''\<rparr>,
         \<lparr>p_user_id = 2, p_gender = Some ''Female'', p_age = Some 25, p_bio = Some ''hello'',
          p_photo_id = None, p_location = None\<rparr>,
         \<lparr>p_user_id = 3, p_gender = Some ''Female'', p_age = Some 26, p_bio = Some ''hey'',
          p_photo_id = Some ''ph3'', p_location = Some ''Rome''\<rparr>,
         \<lparr>p_user_id = 4, p_gender = Some ''Female'', p_age = Some 40, p_bio = Some ''yo'',
          p_photo_id = Some ''ph4'', p_location = Some ''Bonn''\<rparr>,
         \<lparr>p_user_id = 5, p_gender = Some ''Female'', p_age = Some 22, p_bio = Some ''ok'',
          p_photo_id = Some ''ph5'', p_location = Some ''Lima''\<rparr>],
      likes = []\<rparr>"

definition updatable_fields :: "string list" where
  "updatable_fields = [''gender'', ''age'', ''bio'', ''photo_id'', ''location'']"

definition browsing_data :: user_data where
  "browsing_data = \<lparr>search_gender = Some ''Female'', search_age_min = Some 20,
     search_results = Some [2, 5], search_index = Some 0\<rparr>"

definition asking_data :: user_data where
  "asking_data = \<lparr>search_gender = Some ''Female'', search_age_min = Some 20,
     search_results = None, search_index = None\<rparr>"

definition profile_bea :: full_profile where
  "profile_bea = \<lparr>f_name = ''Bea'', f_coins = 100, f_is_premium = False,
     f_gender = Some ''Female'', f_age = Some 25, f_bio = Some ''hello'', f_photo_id = None,
     f_location = None\<rparr>"

definition profile_eve :: full_profile where
  "profile_eve = \<lparr>f_name = ''Eve'', f_coins = 100, f_is_premium = False,
     f_gender = Some ''Female'', f_age = Some 22, f_bio = Some ''ok'', f_photo_id = Some ''ph5'',
     f_location = Some ''Lima''\<rparr>"

definition digits :: "string \<Rightarrow> bool" where
  "digits s = (\<forall>c\<in>set s. \<exists>k<10. c = digit_char k)"

definition browsing_eve :: user_data where
  "browsing_eve = \<lparr>search_gender = Some ''Female'', search_age_min = Some 20,
     search_results = Some [5, 2], search_index = Some 0\<rparr>"

definition advance :: "db \<Rightarrow> int \<Rightarrow> user_data \<Rightarrow> user_data" where
  "advance d uid ud = out_data (profile_callback d ud uid ''next_profile'')"

definition text_27_fs :: string where
  "text_27_fs = [CHR ''2'', CHR ''7'', CHR 0x1C]"


section \<open>Lemmas about the store\<close>

lemma fetch_first_append:
  "fetch_first P f (xs @ ys) =
     (case fetch_first P f xs of Some v \<Rightarrow> Some v | None \<Rightarrow> fetch_first P f ys)"
  by (induction xs) auto

lemma fetch_first_None: "(fetch_first P f xs = None) = (\<forall>x\<in>set xs. \<not> P x)"
  by (induction xs) auto

lemma fetch_first_map_other:
  "(\<And>x. P (g x) = P x) \<Longrightarrow> (\<And>x. \<not> Q x \<Longrightarrow> g x = x) \<Longrightarrow> (\<And>x. P x \<Longrightarrow> \<not> Q x) \<Longrightarrow>
   fetch_first P f (map g xs) = fetch_first P f xs"
  by (induction xs) auto

lemma fetch_first_distinct:
  "distinct (map k xs) \<Longrightarrow> x \<in> set xs \<Longrightarrow> fetch_first (\<lambda>r. k r = k x) f xs = Some (f x)"
  by (induction xs) (auto simp: rev_image_eqI)

lemma add_coins_ids: "add_coins d uid n = Inr d' \<Longrightarrow> map u_user_id (users d') = map u_user_id (users d)"
  by (auto simp: add_coins_def split: if_splits)



lemma coins_of_add_coins:
  "add_coins d uid n = Inr d' \<Longrightarrow>
   coins_of d' v = (if v = uid then map_option (\<lambda>c. c + n) (coins_of d v) else coins_of d v)"
proof -
  have "fetch_first (\<lambda>u. u_user_id u = v) u_coins
          (map (\<lambda>u. if u_user_id u = uid then u\<lparr>u_coins := u_coins u + n\<rparr> else u) xs)
        = (if v = uid then map_option (\<lambda>c. c + n) (fetch_first (\<lambda>u. u_user_id u = v) u_coins xs)
           else fetch_first (\<lambda>u. u_user_id u = v) u_coins xs)" for xs
    by (induction xs) auto
  then show "add_coins d uid n = Inr d' \<Longrightarrow> ?thesis"
    by (auto simp: add_coins_def coins_of_def split: if_splits)
qed

lemma add_coins_no_user: "\<not> has_user d uid \<Longrightarrow> int4_ok n \<Longrightarrow> int8_ok uid \<Longrightarrow> add_coins d uid n = Inr d"
proof -
  assume a: "\<not> has_user d uid" "int4_ok n" "int8_ok uid"
  have m: "map (\<lambda>u. if u_user_id u = uid then u\<lparr>u_coins := u_coins u + n\<rparr> else u) (users d) = users d"
    using a(1) by (intro map_idI) (auto simp: has_user_def)
  have "\<not> list_ex (\<lambda>u. u_user_id u = uid \<and> \<not> int4_ok (u_coins u + n)) (users d)"
    using a(1) by (auto simp: has_user_def list_ex_iff)
  then show ?thesis using a m by (simp add: add_coins_def)
qed

lemma create_user_fresh:
  assumes "\<not> has_user d A" and "create_user d A nm ref code = Inr d'"
  shows "\<exists>d2. d' = d2\<lparr>users := users d2 @ [new_user_row A nm code ref],
                         profiles := profiles d2 @ [new_profile_row A]\<rparr>
          \<and> (d2 = d \<and> \<not> (truthy_str ref \<and> truthy_int (user_id_of_code
                 (d\<lparr>users := users d @ [new_user_row A nm code ref]\<rparr>) (the ref)))
             \<or> (truthy_str ref \<and> truthy_int (user_id_of_code
                 (d\<lparr>users := users d @ [new_user_row A nm code ref]\<rparr>) (the ref)) \<and>
                 add_coins d (the (user_id_of_code
                 (d\<lparr>users := users d @ [new_user_row A nm code ref]\<rparr>) (the ref))) 50 = Inr d2))"
  using assms
  by (auto simp: create_user_def create_user_run_def user_exists_def insert_user_def
      insert_profile_def Let_def user_id_of_code_def
      split: if_splits sum.splits bool.splits prod.splits)

lemma coins_of_append_new:
  "\<not> has_user d2 A \<Longrightarrow>
   coins_of (d2\<lparr>users := users d2 @ [new_user_row A nm code ref], profiles := ps\<rparr>) v =
     (if v = A then Some 100 else coins_of d2 v)"
proof -
  assume "\<not> has_user d2 A"
  then have n: "fetch_first (\<lambda>u. u_user_id u = A) u_coins (users d2) = None"
    by (auto simp: fetch_first_None has_user_def)
  show ?thesis
  proof (cases "v = A")
    case True
    then show ?thesis using n by (simp add: coins_of_def fetch_first_append new_user_row_def)
  next
    case False
    then show ?thesis
      by (simp add: coins_of_def fetch_first_append new_user_row_def split: option.splits)
  qed
qed

lemma add_coins_has_user: "add_coins d uid n = Inr d2 \<Longrightarrow> has_user d2 v = has_user d v"
  by (simp add: has_user_def add_coins_ids)

lemma has_user_create:
  assumes "\<not> has_user d A" "create_user d A nm ref code = Inr d'"
  shows "has_user d' v = (v = A \<or> has_user d v)"
proof -
  from create_user_fresh [OF assms] obtain d2 where
    d': "d' = d2\<lparr>users := users d2 @ [new_user_row A nm code ref],
                         profiles := profiles d2 @ [new_profile_row A]\<rparr>"
    and d2: "d2 = d \<or> (\<exists>r. add_coins d r 50 = Inr d2)" by blast
  from d2 have "has_user d2 v = has_user d v" by (auto simp: add_coins_has_user)
  then show ?thesis by (auto simp: d' has_user_def new_user_row_def)
qed

lemma lookup_code_tx:
  "user_id_of_code (d\<lparr>users := users d @ [r]\<rparr>) c =
     (case user_id_of_code d c of Some b \<Rightarrow> Some b
      | None \<Rightarrow> if u_referral_code r = c then Some (u_user_id r) else None)"
  by (simp add: user_id_of_code_def fetch_first_append split: option.splits)

lemma create_user_credit:
  assumes fresh: "\<not> has_user d A" and look: "user_id_of_code d c = Some B"
    and c: "c \<noteq> []" and B: "B \<noteq> 0"
    and run: "create_user d A nm (Some c) code = Inr d'"
  shows "coins_of d' v = (if v = A then Some 100 else if v = B
            then map_option (\<lambda>x. x + 50) (coins_of d v) else coins_of d v)"
proof -
  from create_user_fresh [OF fresh run] obtain d2 where
    d': "d' = d2\<lparr>users := users d2 @ [new_user_row A nm code (Some c)],
                         profiles := profiles d2 @ [new_profile_row A]\<rparr>"
    and d2: "add_coins d B 50 = Inr d2"
    using look c B by (auto simp: lookup_code_tx)
  have "\<not> has_user d2 A" using fresh d2 by (simp add: add_coins_has_user)
  then have "coins_of d' v = (if v = A then Some 100 else coins_of d2 v)"
    unfolding d' by (rule coins_of_append_new)
  then show ?thesis by (simp add: coins_of_add_coins [OF d2])
qed

lemma coins_of_no_user: "\<not> has_user d A \<Longrightarrow> coins_of d A = None"
  by (auto simp: coins_of_def fetch_first_None has_user_def)

lemma create_user_no_credit:
  assumes fresh: "\<not> has_user d A" and c: "c \<notin> set (map u_referral_code (users d))"
    and run: "create_user d A nm (Some c) code = Inr d'"
  shows "coins_of d' v = (if v = A then Some 100 else coins_of d v)"
proof -
  have none: "user_id_of_code d c = None"
    using c by (auto simp: user_id_of_code_def fetch_first_None)
  from create_user_fresh [OF fresh run] obtain d2 where
    d': "d' = d2\<lparr>users := users d2 @ [new_user_row A nm code (Some c)],
                         profiles := profiles d2 @ [new_profile_row A]\<rparr>"
    and d2: "d2 = d \<or> add_coins d A 50 = Inr d2"
    by (auto simp: lookup_code_tx none new_user_row_def split: if_splits)
  have nu: "\<not> has_user d2 A" using fresh d2 by (auto simp: add_coins_has_user)
  have same: "coins_of d2 v = coins_of d v" if "v \<noteq> A"
    using d2 that by (auto simp: coins_of_add_coins)
  have "coins_of d' v = (if v = A then Some 100 else coins_of d2 v)"
    unfolding d' using nu by (rule coins_of_append_new)
  then show ?thesis using same by simp
qed

lemma create_user_existing:
  "has_user d A \<Longrightarrow> int8_ok A \<Longrightarrow> create_user d A nm ref code = Inr d"
  by (simp add: create_user_def create_user_run_def user_exists_def)

lemma user_id_of_code_profiles:
  "user_id_of_code (d\<lparr>users := us, profiles := ps\<rparr>) c = user_id_of_code (d\<lparr>users := us\<rparr>) c"
  by (simp add: user_id_of_code_def)

lemma new_user_row_sel:
  "u_user_id (new_user_row A nm code ref) = A"
  "u_referral_code (new_user_row A nm code ref) = code"
  "u_coins (new_user_row A nm code ref) = 100"
  by (simp_all add: new_user_row_def)

lemma create_user_returns:
  assumes "int8_ok A" "\<not> has_user d A" "\<not> has_profile d A"
    and "code \<notin> set (map u_referral_code (users d))"
    and "truthy_str ref \<Longrightarrow> truthy_int (user_id_of_code (d\<lparr>users := users d @ [new_user_row A nm code ref]\<rparr>) (the ref))
       \<Longrightarrow> \<exists>d2. add_coins d (the (user_id_of_code (d\<lparr>users := users d @ [new_user_row A nm code ref]\<rparr>) (the ref))) 50 = Inr d2"
  shows "\<exists>d'. create_user d A nm ref code = Inr d'"
  using assms
  by (auto simp: create_user_def create_user_run_def user_exists_def insert_user_def
      insert_profile_def Let_def has_profile_def has_user_def user_id_of_code_profiles
      new_user_row_sel image_iff
      split: sum.splits bool.splits prod.splits)

lemma wf_lookup_code:
  "wf_store d \<Longrightarrow> b \<in> set (users d) \<Longrightarrow> user_id_of_code d (u_referral_code b) = Some (u_user_id b)"
  unfolding user_id_of_code_def wf_store_def by (simp add: fetch_first_distinct)

lemma wf_coins_of:
  "wf_store d \<Longrightarrow> b \<in> set (users d) \<Longrightarrow> coins_of d (u_user_id b) = Some (u_coins b)"
  unfolding coins_of_def wf_store_def by (simp add: fetch_first_distinct)

lemma wf_no_profile: "wf_store d \<Longrightarrow> \<not> has_user d A \<Longrightarrow> \<not> has_profile d A"
  by (auto simp: wf_store_def has_profile_def list_all_iff)

lemma wf_row_eq:
  "wf_store d \<Longrightarrow> b \<in> set (users d) \<Longrightarrow> u \<in> set (users d) \<Longrightarrow> u_user_id u = u_user_id b \<Longrightarrow> u = b"
  by (auto simp: wf_store_def distinct_map inj_on_def)

lemma add_coins_returns:
  assumes wf: "wf_store d" and b: "b \<in> set (users d)" and n: "int4_ok n"
    and s: "int4_ok (u_coins b + n)"
  shows "\<exists>d'. add_coins d (u_user_id b) n = Inr d'"
proof -
  have "int8_ok (u_user_id b)" using wf b by (auto simp: wf_store_def list_all_iff)
  moreover have "\<not> list_ex (\<lambda>u. u_user_id u = u_user_id b \<and> \<not> int4_ok (u_coins u + n)) (users d)"
    using wf_row_eq [OF wf b] s by (auto simp: list_ex_iff)
  ultimately show ?thesis using n by (simp add: add_coins_def)
qed


lemmas store_eval = create_user_def create_user_run_def user_exists_def insert_user_def
  insert_profile_def add_coins_def user_id_of_code_def has_user_def has_profile_def
  new_user_row_def new_profile_row_def int4_ok_def int8_ok_def Let_def coins_of_def


lemma create_al: "create_user store_bea 9 ''Al'' (Some ''7ab3c9d2'') ''0f1e2d3c'' = Inr store_al"
  by (simp add: store_eval store_bea_def store_al_def)


lemma wf_store_bea: "wf_store store_bea"
  by (simp add: wf_store_def store_bea_def has_user_def new_profile_row_def int4_ok_def int8_ok_def)



section \<open>Lemmas about the helpers\<close>

lemmas py_eval = py_isspace_def int_isspace_def int_strip_def py_split_def py_split_on_def digit_val_def
  parse_nat_def py_int_def digit_char_def py_str_def

lemma set_order_by_random: "set (order_by_random rnd rows) = set rows"
proof -
  have "set (map snd (sort_key fst (zip ks rows))) = set rows" if "length ks = length rows" for ks :: "nat list"
  proof -
    have "set (map snd (sort_key fst (zip ks rows))) = set (map snd (zip ks rows))"
      by simp
    also have "\<dots> = set rows" using that by (simp only: map_snd_zip)
    finally show ?thesis .
  qed
  then show ?thesis by (simp add: order_by_random_def)
qed

lemma length_order_by_random: "length (order_by_random rnd rows) = length rows"
  by (simp add: order_by_random_def)

lemma update_profile_age:
  "int8_ok uid \<Longrightarrow> int4_ok n \<Longrightarrow>
   update_profile d uid ''age'' (PInt n) = Inr (update_rows d uid (\<lambda>p. p\<lparr>p_age := Some n\<rparr>))"
  by (simp add: update_profile_def is_name_def profiles_column_def fold_case_def)

lemma age_of_update_rows:
  "age_of (update_rows d uid (\<lambda>p. p\<lparr>p_age := a\<rparr>)) v =
     (if v = uid then map_option (\<lambda>x. a) (age_of d v) else age_of d v)"
proof -
  have "fetch_first (\<lambda>p. p_user_id p = v) p_age
          (map (\<lambda>p. if p_user_id p = uid then p\<lparr>p_age := a\<rparr> else p) ps) =
        (if v = uid then map_option (\<lambda>x. a) (fetch_first (\<lambda>p. p_user_id p = v) p_age ps)
         else fetch_first (\<lambda>p. p_user_id p = v) p_age ps)" for ps
    by (induction ps) auto
  from this [of "profiles d"] show ?thesis by (simp add: age_of_def update_rows_def)
qed

lemma age_of_has_profile: "has_profile d uid \<Longrightarrow> \<exists>a. age_of d uid = Some a"
  by (cases "age_of d uid") (auto simp: age_of_def has_profile_def fetch_first_None)

lemma py_int_27: "py_int ''27'' = Some 27" by (simp add: py_eval)
lemma py_int_17: "py_int ''17'' = Some 17" by (simp add: py_eval)
lemma py_int_old: "py_int ''old enough'' = None" by (simp add: py_eval)

lemma wf_store_club: "wf_store store_club"
  by (simp add: wf_store_def store_club_def has_user_def int4_ok_def int8_ok_def)

lemma matching_club: "matching store_club 1 ''Female'' 20 30 = [2, 5]"
  by (simp add: matching_def store_club_def age_between_def)

lemma order_two: "order_by_random (\<lambda>k. k) [a, b] = [a, b]"
  by (simp add: order_by_random_def upt_rec numeral_nat)

lemma search_club: "search_users (\<lambda>k. k) store_club 1 ''Female'' 20 30 = Inr [2, 5]"
  by (simp add: search_users_def matching_club order_two int4_ok_def int8_ok_def)

lemma matching_sound:
  "i \<in> set (matching d s g lo hi) \<Longrightarrow>
     i \<noteq> s \<and>
     (\<exists>p\<in>set (profiles d). p_user_id p = i \<and> p_gender p = Some g \<and>
        (\<exists>a. p_age p = Some a \<and> lo \<le> a \<and> a \<le> hi)) \<and>
     (\<exists>u\<in>set (users d). u_user_id u = i \<and> \<not> u_is_banned u)"
  by (auto simp: matching_def age_between_def split: option.splits)

lemma wf_is_banned:
  assumes wf: "wf_store d" and u: "u \<in> set (users d)"
  shows "is_banned d (u_user_id u) = Inr (u_is_banned u)"
proof -
  have "int8_ok (u_user_id u)" using wf u by (auto simp: wf_store_def list_all_iff)
  moreover have "fetch_first (\<lambda>r. u_user_id r = u_user_id u) u_is_banned (users d) =
      Some (u_is_banned u)"
    using wf u by (simp add: wf_store_def fetch_first_distinct)
  ultimately show ?thesis by (simp add: is_banned_def)
qed

lemma is_name_columns:
  "is_name ''gender''" "is_name ''age''" "is_name ''bio''" "is_name ''photo_id''"
  "is_name ''location''" "is_name ''user_id''"
  by (simp_all add: is_name_def)

lemma profiles_column_names:
  "profiles_column ''gender'' = Some CGender" "profiles_column ''age'' = Some CAge"
  "profiles_column ''bio'' = Some CBio" "profiles_column ''photo_id'' = Some CPhotoId"
  "profiles_column ''location'' = Some CLocation" "profiles_column ''user_id'' = Some CUserId"
  by (simp_all add: profiles_column_def fold_case_def)

lemma update_profile_text:
  "int8_ok uid \<Longrightarrow>
   update_profile d uid ''gender'' (PStr s) = Inr (update_rows d uid (\<lambda>p. p\<lparr>p_gender := Some s\<rparr>)) \<and>
   update_profile d uid ''bio'' (PStr s) = Inr (update_rows d uid (\<lambda>p. p\<lparr>p_bio := Some s\<rparr>)) \<and>
   update_profile d uid ''photo_id'' (PStr s) =
     Inr (update_rows d uid (\<lambda>p. p\<lparr>p_photo_id := Some s\<rparr>)) \<and>
   update_profile d uid ''location'' (PStr s) =
     Inr (update_rows d uid (\<lambda>p. p\<lparr>p_location := Some s\<rparr>))"
  by (simp add: update_profile_def is_name_columns profiles_column_names)

lemma update_profile_user_id:
  "int8_ok uid \<Longrightarrow> update_profile d uid ''user_id'' (PInt uid) = Inr d"
  by (simp add: update_profile_def is_name_columns profiles_column_names set_user_id_def)

lemma update_profile_refused:
  "is_name field \<Longrightarrow> profiles_column field = None \<Longrightarrow>
   update_profile d uid field v = Inl StatementRefused"
  by (simp add: update_profile_def)

lemma name_nickname: "is_name ''nickname'' \<and> profiles_column ''nickname'' = None"
  by (simp add: is_name_def profiles_column_def fold_case_def)

lemma search_age_max_shown:
  assumes "out_ret (search_age_max rnd d ud uid chat text) = Inr VIEW_PROFILE"
  shows "\<exists>results. results \<noteq> [] \<and>
     out_data (search_age_max rnd d ud uid chat text) =
       ud\<lparr>search_results := Some results, search_index := Some 0\<rparr>"
  using assms
  by (auto simp: search_age_max_def Let_def is_value_error_def
      split: option.splits sum.splits if_splits prod.splits)

lemma get_profile_club:
  "get_user_profile store_club 2 = Inr (Some profile_bea)"
  "get_user_profile store_club 5 = Inr (Some profile_eve)"
  by (simp_all add: get_user_profile_def store_club_def int8_ok_def join_row_def
      profile_bea_def profile_eve_def)

lemma asking_data_sel:
  "search_gender asking_data = Some ''Female''" "search_age_min asking_data = Some 20"
  by (simp_all add: asking_data_def)

lemma py_int_30: "py_int ''30'' = Some 30" by (simp add: py_eval)

lemma view_club_first:
  "view_profile store_club (asking_data\<lparr>search_results := Some [2, 5],
      search_index := Some 0\<rparr>) (ViaUpdate 1) =
     ([ReplyProfile profile_bea (like_next_keyboard 2)], Inr VIEW_PROFILE)"
  by (simp add: view_profile_def py_get_def get_profile_club profile_bea_def)

lemma search_club_shown:
  "out_ret (search_age_max (\<lambda>k. k) store_club asking_data 1 1 ''30'') = Inr VIEW_PROFILE"
  by (simp add: search_age_max_def Let_def py_int_30 asking_data_sel search_club
      view_club_first)

lemma digit_cases: "k < 10 \<Longrightarrow> k \<in> {0, 1, 2, 3, 4, 5, 6, 7, 8, 9 :: nat}"
  by auto

lemma digit_val_digit_char: "k < 10 \<Longrightarrow> digit_val (digit_char k) = Some k"
  using digit_cases [of k] by (auto simp: digit_val_def digit_char_def)

lemma digit_char_plain:
  "k < 10 \<Longrightarrow> digit_char k \<noteq> CHR ''_'' \<and> digit_char k \<noteq> CHR ''-'' \<and>
     digit_char k \<noteq> CHR ''+'' \<and> \<not> py_isspace (digit_char k) \<and>
     \<not> int_isspace (digit_char k)"
  using digit_cases [of k] by (auto simp: digit_char_def py_isspace_def int_isspace_def)

declare str_nat.simps [simp del]

lemma str_nat_small: "n < 10 \<Longrightarrow> str_nat n = [digit_char n]"
  by (subst str_nat.simps) simp

lemma str_nat_big: "\<not> n < 10 \<Longrightarrow> str_nat n = str_nat (n div 10) @ [digit_char (n mod 10)]"
  by (subst str_nat.simps) simp

lemma digits_simps:
  "digits []" "digits (c # cs) = ((\<exists>k<10. c = digit_char k) \<and> digits cs)"
  "digits (xs @ ys) = (digits xs \<and> digits ys)"
  by (auto simp: digits_def)

lemma str_nat_digits: "digits (str_nat n) \<and> str_nat n \<noteq> []"
proof (induction n rule: str_nat.induct)
  case (1 n)
  show ?case
  proof (cases "n < 10")
    case True
    then show ?thesis by (auto simp: str_nat_small digits_simps)
  next
    case False
    have "n mod 10 < 10" by simp
    then have "\<exists>k<10. digit_char (n mod 10) = digit_char k" by blast
    then show ?thesis using False 1 by (simp add: str_nat_big digits_simps)
  qed
qed

lemma parse_digits_snoc:
  "digits xs \<Longrightarrow> k < 10 \<Longrightarrow>
   parse_digits (xs @ [digit_char k]) acc = map_option (\<lambda>v. 10 * v + k) (parse_digits xs acc)"
proof (induction xs arbitrary: acc)
  case Nil
  then show ?case by (simp add: digit_val_digit_char digit_char_plain)
next
  case (Cons c cs)
  from Cons.prems obtain j where j: "j < 10" "c = digit_char j" by (auto simp: digits_simps)
  have cs: "digits cs" using Cons.prems by (simp add: digits_simps)
  show ?case using Cons.IH [OF cs Cons.prems(2)] j
    by (simp add: digit_val_digit_char digit_char_plain)
qed

lemma parse_nat_snoc:
  assumes d: "digits xs" and ne: "xs \<noteq> []" and k: "k < 10"
  shows "parse_nat (xs @ [digit_char k]) = map_option (\<lambda>v. 10 * v + k) (parse_nat xs)"
proof -
  from ne obtain c cs where xs: "xs = c # cs" by (cases xs) auto
  from d xs obtain j where j: "j < 10" "c = digit_char j" by (auto simp: digits_simps)
  have cs: "digits cs" using d xs by (simp add: digits_simps)
  show ?thesis using xs j parse_digits_snoc [OF cs k]
    by (simp add: parse_nat_def digit_val_digit_char)
qed

lemma parse_nat_str_nat: "parse_nat (str_nat n) = Some n"
proof (induction n rule: str_nat.induct)
  case (1 n)
  show ?case
  proof (cases "n < 10")
    case True
    then show ?thesis by (simp add: str_nat_small parse_nat_def digit_val_digit_char)
  next
    case False
    have k: "n mod 10 < 10" by simp
    have "parse_nat (str_nat (n div 10) @ [digit_char (n mod 10)]) =
        map_option (\<lambda>v. 10 * v + n mod 10) (parse_nat (str_nat (n div 10)))"
      using str_nat_digits [of "n div 10"] k by (intro parse_nat_snoc) simp_all
    then show ?thesis using False 1 by (simp add: str_nat_big)
  qed
qed

lemma dropWhile_plain: "xs \<noteq> [] \<Longrightarrow> \<not> P (hd xs) \<Longrightarrow> dropWhile P xs = xs"
  by (cases xs) auto

lemma int_strip_plain:
  assumes s: "s \<noteq> []" and h: "\<not> int_isspace (hd s)" and l: "\<not> int_isspace (last s)"
  shows "int_strip s = s"
proof -
  have a: "dropWhile int_isspace s = s" using s h by (rule dropWhile_plain)
  have "rev s \<noteq> []" "\<not> int_isspace (hd (rev s))" using s l by (simp_all add: hd_rev)
  then have b: "dropWhile int_isspace (rev s) = rev s" by (rule dropWhile_plain)
  show ?thesis by (simp add: int_strip_def a b)
qed

lemma digits_ends:
  "digits s \<Longrightarrow> s \<noteq> [] \<Longrightarrow>
     \<not> int_isspace (hd s) \<and> \<not> int_isspace (last s) \<and> hd s \<noteq> CHR ''-'' \<and> hd s \<noteq> CHR ''+''"
proof -
  assume d: "digits s" and s: "s \<noteq> []"
  have "hd s \<in> set s" "last s \<in> set s" using s by simp_all
  then obtain j k where "j < 10" "hd s = digit_char j" "k < 10" "last s = digit_char k"
    using d unfolding digits_def by blast
  then show ?thesis using digit_char_plain by metis
qed

lemma py_int_py_str: "py_int (py_str i) = Some i"
proof (cases "i < 0")
  case False
  let ?s = "str_nat (nat i)"
  note d = str_nat_digits [of "nat i"]
  from d obtain c cs where s: "?s = c # cs" by (cases ?s) auto
  from digits_ends d have e: "\<not> int_isspace (hd ?s)" "\<not> int_isspace (last ?s)"
    "hd ?s \<noteq> CHR ''-''" "hd ?s \<noteq> CHR ''+''" by blast+
  have st: "int_strip ?s = ?s" using d e by (intro int_strip_plain) simp_all
  have "parse_nat (c # cs) = Some (nat i)" using parse_nat_str_nat [of "nat i"] s by simp
  then show ?thesis using False e s st by (simp add: py_int_def py_str_def)
next
  case True
  let ?s = "str_nat (nat (- i))"
  note d = str_nat_digits [of "nat (- i)"]
  from digits_ends d have e: "\<not> int_isspace (last ?s)" by blast
  have m: "\<not> int_isspace (CHR ''-'')" by (simp add: int_isspace_def)
  have st: "int_strip (CHR ''-'' # ?s) = CHR ''-'' # ?s"
    using d e m by (intro int_strip_plain) simp_all
  show ?thesis using True st parse_nat_str_nat [of "nat (- i)"]
    by (simp add: py_int_def py_str_def)
qed

lemma split_on_plain: "sep \<notin> set s \<Longrightarrow> split_on sep s cur = [rev cur @ s]"
  by (induction s arbitrary: cur) auto

lemma py_str_no_underscore: "CHR ''_'' \<notin> set (py_str i)"
proof -
  have "CHR ''_'' \<notin> set (str_nat n)" for n
    using str_nat_digits [of n] digit_char_plain unfolding digits_def by metis
  then show ?thesis by (simp add: py_str_def)
qed

lemma like_data_split:
  "py_split_on CHR ''_'' (''like_'' @ py_str i) = [''like'', py_str i]"
  by (simp add: py_split_on_def split_on_plain [OF py_str_no_underscore])

lemma profile_callback_store: "out_store (profile_callback d ud uid data) = d"
  by (simp add: profile_callback_def Let_def split: sum.splits option.splits prod.splits)

lemma profile_callback_like:
  assumes "take 5 data = ''like_''" and "py_get (py_split_on CHR ''_'' data) 1 = Inr s"
    and "py_int s = Some t" and "search_index ud = Some i"
  shows "search_index (out_data (profile_callback d ud uid data)) = Some (i + 1) \<and>
     search_results (out_data (profile_callback d ud uid data)) = search_results ud \<and>
     take 3 (out_sent (profile_callback d ud uid data)) =
       [Answer,
        SendMessage t
          ''Someone liked your profile! You can view their profile by searching for them.'',
        EditMessageText ''You liked this profile!'']"
  using assms
  by (simp add: profile_callback_def Let_def split: sum.splits prod.splits)

lemma like_button_target:
  "take 5 (''like_'' @ py_str t) = ''like_'' \<and>
   py_get (py_split_on CHR ''_'' (''like_'' @ py_str t)) 1 = Inr (py_str t) \<and>
   py_int (py_str t) = Some t"
  unfolding like_data_split by (simp add: py_get_def py_int_py_str)

lemma like_5_parse:
  "take 5 ''like_5'' = ''like_'' \<and> py_get (py_split_on CHR ''_'' ''like_5'') 1 = Inr ''5'' \<and>
   py_int ''5'' = Some 5 \<and> hd (like_next_keyboard 5) = ''like_5''"
  by (simp add: py_eval py_get_def like_next_keyboard_def str_nat_small)

lemma browsing_eve_sel:
  "search_index browsing_eve = Some 0" "search_results browsing_eve = Some [5, 2]"
  by (simp_all add: browsing_eve_def)

lemma view_eve_second:
  "view_profile store_club (browsing_eve\<lparr>search_index := Some 1\<rparr>) ViaQuery =
     ([ReplyProfile profile_bea (like_next_keyboard 2)], Inr VIEW_PROFILE)"
  by (simp add: view_profile_def py_get_def get_profile_club profile_bea_def browsing_eve_def)

lemma likes_club: "likes store_club = []"
  by (simp add: store_club_def)

lemma like_5_ret:
  "out_ret (profile_callback store_club browsing_eve 1 ''like_5'') = Inr VIEW_PROFILE"
  using like_5_parse
  by (simp add: profile_callback_def Let_def browsing_eve_sel view_eve_second)

lemma admin_grant_missing:
  assumes "py_split text = [a, b]" "py_int a = Some t" "py_int b = Some amt"
    and "int8_ok t" "\<not> has_user d t"
  shows "admin_grant_coins admins d ud uid text =
     \<lparr>out_sent = [ReplyText ''User not found.''], out_data = ud, out_store = d,
      out_ret = Inr ADMIN_MENU\<rparr>"
  using assms by (simp add: admin_grant_coins_def Let_def user_exists_def)

lemma admin_grant_store:
  assumes "py_split text = [a, b]" "py_int a = Some t" "py_int b = Some amt"
    and "has_user d t" "add_coins d t amt = Inr d'"
  shows "out_store (admin_grant_coins admins d ud uid text) = d' \<and>
     take 2 (out_sent (admin_grant_coins admins d ud uid text)) =
       [ReplyText (''Successfully granted '' @ py_str amt @ '' coins to user '' @ py_str t @ ''.''),
        SendMessage t (''An admin has granted you '' @ py_str amt @ '' coins!'')] \<and>
     (uid \<in> set admins \<longrightarrow> out_ret (admin_grant_coins admins d ud uid text) = Inr ADMIN_MENU)"
proof -
  have "int8_ok t" using assms(5) by (auto simp: add_coins_def split: if_splits)
  then show ?thesis using assms
    by (simp add: admin_grant_coins_def Let_def user_exists_def admin_menu_command_def)
qed

lemma grant_texts:
  "py_split ''7 100'' = [''7'', ''100'']" "py_int ''7'' = Some 7" "py_int ''100'' = Some 100"
  "py_split ''8 100'' = [''8'', ''100'']" "py_int ''8'' = Some 8"
  "py_split ''7 2147483647'' = [''7'', ''2147483647'']"
  "py_int ''2147483647'' = Some 2147483647"
  by (simp_all add: py_eval)

lemma bea_row:
  "\<lparr>u_user_id = 7, u_name = ''Bea'', u_coins = 100, u_is_premium = False,
     u_is_banned = False, u_referral_code = ''7ab3c9d2'', u_referred_by = None\<rparr>
     \<in> set (users store_bea)"
  by (simp add: store_bea_def)

lemma search_age_max_empty:
  assumes "py_int text = Some hi" "search_age_min ud = Some lo" "lo \<le> hi" "hi \<le> 99"
    and "search_gender ud = Some g" "search_users rnd d uid g lo hi = Inr []"
  shows "search_age_max rnd d ud uid chat text =
     \<lparr>out_sent = [ReplyText ''No users found matching your criteria.''], out_data = ud,
      out_store = d, out_ret = Inr END\<rparr>"
  using assms by (simp add: search_age_max_def Let_def)

lemma advance_step:
  "search_index ud = Some i \<Longrightarrow>
   search_index (advance d uid ud) = Some (i + 1) \<and>
   search_results (advance d uid ud) = search_results ud"
  by (simp add: advance_def profile_callback_def Let_def split: prod.splits sum.splits)

lemma advance_funpow:
  "search_index ud = Some i \<Longrightarrow>
   search_index ((advance d uid ^^ k) ud) = Some (i + int k) \<and>
   search_results ((advance d uid ^^ k) ud) = search_results ud"
proof (induction k)
  case 0
  then show ?case by simp
next
  case (Suc k)
  from Suc have "search_index ((advance d uid ^^ k) ud) = Some (i + int k)" by simp
  from advance_step [OF this, of d uid] Suc show ?case by simp
qed

lemma view_profile_at:
  assumes "search_results ud = Some rs" "search_index ud = Some (int k)"
  shows "(length rs \<le> k \<longrightarrow>
       view_profile d ud upd = ([ReplyText ''No more profiles to show.''], Inr END)) \<and>
     (k < length rs \<and> get_user_profile d (rs ! k) = Inr (Some p) \<and>
        \<not> truthy_str (f_photo_id p) \<longrightarrow>
       view_profile d ud upd =
         ([ReplyProfile p (like_next_keyboard (rs ! k))], Inr VIEW_PROFILE)) \<and>
     (k < length rs \<and> get_user_profile d (rs ! k) = Inr (Some p) \<and>
        truthy_str (f_photo_id p) \<longrightarrow>
       view_profile d ud ViaQuery = ([], Inl AttributeError))"
  using assms by (auto simp: view_profile_def Let_def py_get_def)

lemma browsing_data_sel:
  "search_index browsing_data = Some 0" "search_results browsing_data = Some [2, 5]"
  "asking_data\<lparr>search_results := Some [2, 5], search_index := Some 0\<rparr> = browsing_data"
  by (simp_all add: browsing_data_def asking_data_def)

lemma view_club_second:
  "view_profile store_club (browsing_data\<lparr>search_index := Some 1\<rparr>) ViaQuery =
     ([], Inl AttributeError)"
  by (simp add: view_profile_def py_get_def get_profile_club profile_eve_def browsing_data_def)

lemma search_club_data:
  "search_age_max (\<lambda>k. k) store_club asking_data 1 1 ''30'' =
     \<lparr>out_sent = [ReplyProfile profile_bea (like_next_keyboard 2)], out_data = browsing_data,
      out_store = store_club, out_ret = Inr VIEW_PROFILE\<rparr>"
proof -
  have "view_profile store_club browsing_data (ViaUpdate 1) =
      ([ReplyProfile profile_bea (like_next_keyboard 2)], Inr VIEW_PROFILE)"
    using view_club_first by (simp only: browsing_data_sel)
  then show ?thesis
    by (simp add: search_age_max_def Let_def py_int_30 asking_data_sel search_club
        browsing_data_sel)
qed

lemma like_2_parse:
  "py_get (py_split_on CHR ''_'' ''like_2'') 1 = Inr ''2''" "py_int ''2'' = Some 2"
  by (simp_all add: py_eval py_get_def)

lemma next_club_raises:
  "profile_callback store_club browsing_data 1 ''next_profile'' =
     \<lparr>out_sent = [Answer, DeleteMessage],
      out_data = browsing_data\<lparr>search_index := Some 1\<rparr>,
      out_store = store_club, out_ret = Inl AttributeError\<rparr>"
  by (simp add: profile_callback_def Let_def browsing_data_sel view_club_second)

lemma like_club_raises:
  "profile_callback store_club browsing_data 1 ''like_2'' =
     \<lparr>out_sent = [Answer,
        SendMessage 2
          ''Someone liked your profile! You can view their profile by searching for them.'',
        EditMessageText ''You liked this profile!'',
        SendMessage 1 ''Loading next profile...''],
      out_data = browsing_data\<lparr>search_index := Some 1\<rparr>,
      out_store = store_club, out_ret = Inl AttributeError\<rparr>"
  using like_2_parse
  by (simp add: profile_callback_def Let_def browsing_data_sel view_club_second)

lemma digit_val_chars: "digit_val c = Some v \<Longrightarrow> c \<in> set ''0123456789''"
proof -
  assume a: "digit_val c = Some v"
  then have b: "48 \<le> (of_char c :: nat) \<and> (of_char c :: nat) \<le> 57"
    by (simp add: digit_val_def Let_def split: if_splits)
  then have "(of_char c :: nat) \<in> {48, 49, 50, 51, 52, 53, 54, 55, 56, 57}"
    by simp arith
  also have "{48, 49, 50, 51, 52, 53, 54, 55, 56, 57 :: nat} = of_char ` set ''0123456789''"
    by simp
  finally have "(of_char c :: nat) \<in> of_char ` set ''0123456789''" .
  then obtain x where "x \<in> set ''0123456789''" "(of_char c :: nat) = of_char x" by blast
  then show ?thesis by (simp only: of_char_eq_iff)
qed

lemma parse_digits_foreign:
  "c \<in> set cs \<Longrightarrow> digit_val c = None \<Longrightarrow> c \<noteq> CHR ''_'' \<Longrightarrow> parse_digits cs acc = None"
proof (induction cs acc rule: parse_digits.induct)
  case (1 acc)
  then show ?case by simp
next
  case (2 x xs acc)
  show ?case
  proof (cases "x = CHR ''_''")
    case True
    then have cx: "c \<in> set xs" using 2(3,5) by auto
    then obtain y ys where xs: "xs = y # ys" by (cases xs) auto
    show ?thesis
    proof (cases "digit_val y")
      case None
      then show ?thesis using True xs by simp
    next
      case (Some v)
      then have "c \<noteq> y" using 2(4) by auto
      then have "c \<in> set ys" using cx xs by simp
      from 2(1) [OF True xs Some this 2(4) 2(5)] show ?thesis using True xs Some by simp
    qed
  next
    case False
    show ?thesis
    proof (cases "digit_val x")
      case None
      then show ?thesis using False by simp
    next
      case (Some v)
      then have "c \<noteq> x" using 2(4) by auto
      then have "c \<in> set xs" using 2(3) by simp
      from 2(2) [OF False Some this 2(4) 2(5)] show ?thesis using False Some by simp
    qed
  qed
qed

lemma parse_nat_foreign:
  "c \<in> set cs \<Longrightarrow> digit_val c = None \<Longrightarrow> c \<noteq> CHR ''_'' \<Longrightarrow> parse_nat cs = None"
proof (cases cs)
  case Nil
  then show ?thesis by (simp add: parse_nat_def)
next
  case (Cons x xs)
  assume a: "c \<in> set cs" "digit_val c = None" "c \<noteq> CHR ''_''"
  show ?thesis
  proof (cases "digit_val x")
    case None
    then show ?thesis using Cons by (simp add: parse_nat_def)
  next
    case (Some v)
    then have "c \<noteq> x" using a(2) by auto
    then have "c \<in> set xs" using a(1) Cons by simp
    then have "parse_digits xs v = None" using a by (intro parse_digits_foreign)
    then show ?thesis using Cons Some by (simp add: parse_nat_def)
  qed
qed

lemma in_dropWhile: "x \<in> set xs \<Longrightarrow> \<not> P x \<Longrightarrow> x \<in> set (dropWhile P xs)"
  by (induction xs) auto

lemma in_int_strip: "c \<in> set s \<Longrightarrow> \<not> int_isspace c \<Longrightarrow> c \<in> set (int_strip s)"
  by (simp add: int_strip_def in_dropWhile)

lemma py_int_foreign:
  assumes c: "c \<in> set s" and sp: "\<not> int_isspace c" and f: "c \<notin> set ''0123456789+-_''"
  shows "py_int s = None"
proof -
  have dv: "digit_val c = None"
  proof (cases "digit_val c")
    case (Some v)
    from digit_val_chars [OF this] f show ?thesis by simp
  qed simp
  have u: "c \<noteq> CHR ''_''" "c \<noteq> CHR ''-''" "c \<noteq> CHR ''+''" using f by simp_all
  from in_int_strip [OF c sp] obtain h t where ht: "int_strip s = h # t" and m: "c \<in> set (h # t)"
    by (cases "int_strip s") auto
  show ?thesis
  proof (cases "h = CHR ''-'' \<or> h = CHR ''+''")
    case True
    then have "c \<in> set t" using m u by auto
    then have "parse_nat t = None" using dv u(1) by (intro parse_nat_foreign)
    then show ?thesis using True ht by (auto simp: py_int_def)
  next
    case False
    have "parse_nat (h # t) = None" using m dv u(1) by (intro parse_nat_foreign)
    then show ?thesis using False ht by (simp add: py_int_def)
  qed
qed

lemma text_27_fs_foreign:
  "CHR 0x1C \<in> set text_27_fs \<and> \<not> int_isspace (CHR 0x1C) \<and> CHR 0x1C \<notin> set ''0123456789+-_'' \<and>
   py_isspace (CHR 0x1C)"
  by (simp add: text_27_fs_def int_isspace_def py_isspace_def)

lemma py_int_padded: "py_int '' 27 '' = Some 27" by (simp add: py_eval)


lemma create_user_run_collision:
  assumes "\<not> has_user d A" "int8_ok A" "code \<in> set (map u_referral_code (users d))"
  shows "create_user_run d A nm ref code = ([], Inl UniqueViolation)"
  using assms
  by (simp add: create_user_run_def user_exists_def insert_user_def Let_def new_user_row_sel)

lemma create_user_collision:
  assumes "\<not> has_user d A" "int8_ok A" "code \<in> set (map u_referral_code (users d))"
  shows "create_user d A nm ref code = Inl UniqueViolation"
  by (simp add: create_user_def create_user_run_collision [OF assms])


lemma commit_has_profile:
  "has_profile (c\<lparr>users := us, profiles := profiles c @ [new_profile_row A]\<rparr>) A"
  by (simp add: has_profile_def new_profile_row_def)


lemma create_user_profile:
  assumes "\<not> has_user d A" "create_user d A nm ref code = Inr d'"
  shows "has_profile d' A"
proof -
  from create_user_fresh [OF assms] obtain d2 where
    "d' = d2\<lparr>users := users d2 @ [new_user_row A nm code ref],
                         profiles := profiles d2 @ [new_profile_row A]\<rparr>" by blast
  then show ?thesis by (simp add: commit_has_profile)
qed


lemma rich_row:
  "\<lparr>u_user_id = 7, u_name = ''Bea'', u_coins = 2147483647, u_is_premium = False,
     u_is_banned = False, u_referral_code = ''7ab3c9d2'', u_referred_by = None\<rparr>
     \<in> set (users store_rich)"
  by (simp add: store_rich_def)




lemma update_profile_folds:
  "update_profile d uid ''Age'' v = update_profile d uid ''age'' v"
  "update_profile d uid ''BIO'' v = update_profile d uid ''bio'' v"
  by (simp_all add: update_profile_def is_name_def profiles_column_def fold_case_def)

lemma grant_texts_wide:
  "py_split ''7 2147483648'' = [''7'', ''2147483648'']"
  "py_int ''2147483648'' = Some 2147483648"
  by (simp_all add: py_eval)

lemma grant_out_of_range_raises:
  "admin_grant_coins [1] store_bea no_data 1 ''7 2147483648'' =
     \<lparr>out_sent = [], out_data = no_data, out_store = store_bea, out_ret = Inl DataError\<rparr>"
  by (simp add: admin_grant_coins_def Let_def grant_texts grant_texts_wide user_exists_def
      add_coins_def has_user_def int4_ok_def int8_ok_def is_value_error_def store_bea_def)

section \<open>The claims\<close>



text \<open>
  C5. On a store that satisfies the schema's constraints, \<^verbatim>\<open>search_users\<close> returns
  when its integer arguments fit their SQL types, and whatever it returns, for any
  random draws: at most 20 ids; none is the searcher's; every one is the id of a profile
  whose gender is the requested one and whose age lies in the inclusive range, and of
  a user who is not banned.
\<close>

theorem search_users_sound:
  assumes wf: "wf_store d"
  shows
    "(int4_ok lo \<and> int4_ok hi \<and> int8_ok s \<longrightarrow> (\<exists>res. search_users rnd d s g lo hi = Inr res)) \<and>
     (\<forall>res. search_users rnd d s g lo hi = Inr res \<longrightarrow>
        length res \<le> 20 \<and>
        (\<forall>i\<in>set res. i \<noteq> s \<and> is_banned d i = Inr False \<and>
           (\<exists>p\<in>set (profiles d). p_user_id p = i \<and> p_gender p = Some g \<and>
              (\<exists>a. p_age p = Some a \<and> lo \<le> a \<and> a \<le> hi))))"
proof (intro conjI impI allI ballI)
  assume "int4_ok lo \<and> int4_ok hi \<and> int8_ok s"
  then show "\<exists>res. search_users rnd d s g lo hi = Inr res"
    by (simp add: search_users_def)
next
  fix res
  assume r: "search_users rnd d s g lo hi = Inr res"
  then have res: "res = take 20 (order_by_random rnd (matching d s g lo hi))"
    by (auto simp: search_users_def split: if_splits)
  show "length res \<le> 20" by (simp add: res)
  fix i assume "i \<in> set res"
  then have "i \<in> set (order_by_random rnd (matching d s g lo hi))"
    unfolding res by (rule in_set_takeD)
  then have m: "i \<in> set (matching d s g lo hi)" by (simp add: set_order_by_random)
  note ms = matching_sound [OF m]
  show "i \<noteq> s" using ms by blast
  show "\<exists>p\<in>set (profiles d). p_user_id p = i \<and> p_gender p = Some g \<and>
              (\<exists>a. p_age p = Some a \<and> lo \<le> a \<and> a \<le> hi)" using ms by blast
  from ms obtain u where u: "u \<in> set (users d)" "u_user_id u = i" "\<not> u_is_banned u"
    by blast
  then show "is_banned d i = Inr False" using wf_is_banned [OF wf u(1)] by simp
qed

theorem search_users_sound_witness:
  "wf_store store_club \<and> search_users (\<lambda>k. k) store_club 1 ''Female'' 20 30 = Inr [2, 5] \<and>
   is_banned store_club 2 = Inr False \<and> is_banned store_club 5 = Inr False \<and>
   is_banned store_club 3 = Inr True"
proof -
  from search_users_sound [OF wf_store_club, of 20 30 1 "\<lambda>k. k" "''Female''"] search_club
  have "is_banned store_club 2 = Inr False \<and> is_banned store_club 5 = Inr False"
    by simp
  moreover have "is_banned store_club 3 = Inr True"
    by (simp add: is_banned_def store_club_def int8_ok_def)
  ultimately show ?thesis using wf_store_club search_club by simp
qed

text \<open>
  C4, as the code has it. \<^verbatim>\<open>update_profile\<close> checks nothing itself: the outcome
  is the server's answer to the statement the field text makes. For a text that is a
  name: every name that is no column of \<^verbatim>\<open>profiles\<close> is refused and the store stays
  as it was; each of the five names main.py passes (gender, age, bio, photo_id,
  location), with a value of the column's type, sets that column in the rows of the
  user and returns; and the sixth column, \<^verbatim>\<open>user_id\<close>, is accepted as well.
\<close>

theorem update_profile_unchecked:
  "(is_name field \<and> profiles_column field = None \<longrightarrow>
      update_profile d uid field v = Inl StatementRefused) \<and>
   (int8_ok uid \<longrightarrow>
      update_profile d uid ''gender'' (PStr s) =
        Inr (update_rows d uid (\<lambda>p. p\<lparr>p_gender := Some s\<rparr>)) \<and>
      update_profile d uid ''bio'' (PStr s) =
        Inr (update_rows d uid (\<lambda>p. p\<lparr>p_bio := Some s\<rparr>)) \<and>
      update_profile d uid ''photo_id'' (PStr s) =
        Inr (update_rows d uid (\<lambda>p. p\<lparr>p_photo_id := Some s\<rparr>)) \<and>
      update_profile d uid ''location'' (PStr s) =
        Inr (update_rows d uid (\<lambda>p. p\<lparr>p_location := Some s\<rparr>)) \<and>
      (int4_ok n \<longrightarrow> update_profile d uid ''age'' (PInt n) =
        Inr (update_rows d uid (\<lambda>p. p\<lparr>p_age := Some n\<rparr>))) \<and>
      update_profile d uid ''user_id'' (PInt uid) = Inr d)"
  using update_profile_refused [of field d uid v] update_profile_text [of uid d s]
    update_profile_age [of uid n d] update_profile_user_id [of uid d]
  by blast

theorem update_profile_unchecked_witness:
  "is_name ''nickname'' \<and> profiles_column ''nickname'' = None \<and>
   update_profile store_bea 7 ''nickname'' (PStr ''B'') = Inl StatementRefused \<and>
   int8_ok 7 \<and> int4_ok 27 \<and>
   update_profile store_bea 7 ''age'' (PInt 27) =
     Inr (update_rows store_bea 7 (\<lambda>p. p\<lparr>p_age := Some 27\<rparr>)) \<and>
   update_profile store_bea 7 ''bio'' (PStr ''hello'') =
     Inr (update_rows store_bea 7 (\<lambda>p. p\<lparr>p_bio := Some ''hello''\<rparr>))"
proof -
  have i8: "int8_ok 7" by (simp add: int8_ok_def)
  have i4: "int4_ok 27" by (simp add: int4_ok_def)
  from update_profile_unchecked [of "''nickname''" store_bea 7 "PStr ''B''" "''hello''" 27]
    name_nickname i8 i4
  show ?thesis by simp
qed

text \<open>
  C4 as stated fails: \<^verbatim>\<open>user_id\<close> is outside the five field names, and the call is
  not rejected.
\<close>

theorem update_profile_accepts_user_id:
  "''user_id'' \<notin> set updatable_fields \<and>
   update_profile store_bea 7 ''user_id'' (PInt 7) = Inr store_bea"
  by (simp add: updatable_fields_def update_profile_user_id int8_ok_def)

text \<open>
  C9, as the code has it. \<^verbatim>\<open>cancel\<close> is the fallback of every conversation: from
  whatever state, it answers "Operation cancelled." and returns END (idle). It leaves
  the session data and the store as they were: the candidate list and the cursor of a
  browse stay in \<^verbatim>\<open>user_data\<close>. Only a later search that finds candidates
  overwrites them, with its own list and cursor 0.
\<close>

theorem cancel_keeps_session:
  "out_ret (cancel d ud) = Inr END \<and> out_data (cancel d ud) = ud \<and> out_store (cancel d ud) = d \<and>
   (out_ret (search_age_max rnd d ud uid chat text) = Inr VIEW_PROFILE \<longrightarrow>
      (\<exists>results. results \<noteq> [] \<and>
         out_data (search_age_max rnd d ud uid chat text) =
           ud\<lparr>search_results := Some results, search_index := Some 0\<rparr>))"
  using search_age_max_shown [of rnd d ud uid chat "text"]
  by (simp add: cancel_def)

theorem cancel_keeps_session_witness:
  "out_ret (search_age_max (\<lambda>k. k) store_club asking_data 1 1 ''30'') = Inr VIEW_PROFILE \<and>
   (\<exists>results. results \<noteq> [] \<and>
      search_results (out_data (search_age_max (\<lambda>k. k) store_club
        asking_data 1 1 ''30'')) =
        Some results) \<and>
   search_index (out_data (search_age_max (\<lambda>k. k) store_club
        asking_data 1 1 ''30'')) =
     Some 0"
proof -
  from cancel_keeps_session [of store_club asking_data "\<lambda>k. k" 1 1 "''30''"] search_club_shown
  obtain results where "results \<noteq> []"
    "out_data (search_age_max (\<lambda>k. k) store_club
        asking_data 1 1 ''30'') =
     asking_data\<lparr>search_results := Some results, search_index := Some 0\<rparr>"
    by auto
  then show ?thesis using search_club_shown by auto
qed

text \<open>
  C9 as stated fails: cancelling an active browse returns END, and the candidate list and
  the cursor are still in the session data afterwards.
\<close>

theorem cancel_leaves_candidates:
  "out_ret (cancel store_club browsing_data) = Inr END \<and>
   search_results (out_data (cancel store_club browsing_data)) = Some [2, 5] \<and>
   search_index (out_data (cancel store_club browsing_data)) = Some 0"
  by (simp add: cancel_def browsing_data_def)

text \<open>
  C1, as the code has it. No branch of \<^verbatim>\<open>profile_callback\<close> touches the store:
  whatever is pressed, the store after the call is the store before it, so the likes
  table gains no row. Pressing the like button shown under candidate t (callback data
  \<^verbatim>\<open>like_\<close> followed by t) answers the query, sends the notice to t, edits the
  message, and moves the cursor from i to i + 1, the candidate list unchanged.
\<close>

theorem like_records_nothing:
  "out_store (profile_callback d ud uid data) = d \<and>
   likes (out_store (profile_callback d ud uid data)) = likes d \<and>
   (search_index ud = Some i \<longrightarrow>
      search_index (out_data (profile_callback d ud uid (hd (like_next_keyboard t)))) =
        Some (i + 1) \<and>
      search_results (out_data (profile_callback d ud uid (hd (like_next_keyboard t)))) =
        search_results ud \<and>
      take 3 (out_sent (profile_callback d ud uid (hd (like_next_keyboard t)))) =
        [Answer,
         SendMessage t
           ''Someone liked your profile! You can view their profile by searching for them.'',
         EditMessageText ''You liked this profile!''])"
  using profile_callback_like [of "''like_'' @ py_str t" "py_str t" t ud i d uid]
    like_button_target [of t]
  by (simp add: profile_callback_store like_next_keyboard_def)

theorem like_records_nothing_witness:
  "search_index browsing_eve = Some 0 \<and> hd (like_next_keyboard 5) = ''like_5'' \<and>
   likes (out_store (profile_callback store_club browsing_eve 1 ''like_5'')) = likes store_club \<and>
   search_index (out_data (profile_callback store_club browsing_eve 1 ''like_5'')) = Some 1 \<and>
   search_results (out_data (profile_callback store_club browsing_eve 1 ''like_5'')) =
     Some [5, 2]"
  using like_records_nothing [of store_club browsing_eve 1 "''like_5''" 0 5]
    like_5_parse browsing_eve_sel
  by simp

text \<open>
  C1 as stated fails: user 1 presses like under candidate 5, the handler returns without
  error, and the likes table holds no edge from 1 to 5; pressing again changes nothing.
\<close>

theorem like_leaves_no_edge:
  "out_ret (profile_callback store_club browsing_eve 1 ''like_5'') = Inr VIEW_PROFILE \<and>
   \<lparr>liker_id = 1, liked_id = 5\<rparr> \<notin>
     set (likes (out_store (profile_callback store_club browsing_eve 1 ''like_5''))) \<and>
   likes (out_store (profile_callback
     (out_store (profile_callback store_club browsing_eve 1 ''like_5''))
     (out_data (profile_callback store_club browsing_eve 1 ''like_5'')) 1 ''like_5'')) = []"
  by (simp add: like_5_ret profile_callback_store likes_club)

text \<open>
  C8, as the code has it. The admin's text splits into two integers, the target id and
  the amount. When the target is a user and the amount and the new balance fit the
  INTEGER column, the balance grows by exactly the amount, no other balance changes, and
  the grant is reported to the admin and to the target. When no user has the target id
  (an id that fits BIGINT), the only reply is "User not found.", the store is unchanged
  and the handler returns to the admin menu.
\<close>

theorem admin_coin_grant:
  assumes wf: "wf_store d"
    and inp: "py_split text = [a, b]" "py_int a = Some t" "py_int b = Some amt"
  shows
    "(\<forall>u\<in>set (users d). u_user_id u = t \<and> int4_ok amt \<and> int4_ok (u_coins u + amt) \<longrightarrow>
        coins_of (out_store (admin_grant_coins admins d ud uid text)) t = Some (u_coins u + amt) \<and>
        (\<forall>v. v \<noteq> t \<longrightarrow>
           coins_of (out_store (admin_grant_coins admins d ud uid text)) v = coins_of d v) \<and>
        take 2 (out_sent (admin_grant_coins admins d ud uid text)) =
          [ReplyText (''Successfully granted '' @ py_str amt @ '' coins to user '' @
             py_str t @ ''.''),
           SendMessage t (''An admin has granted you '' @ py_str amt @ '' coins!'')]) \<and>
     (\<not> has_user d t \<and> int8_ok t \<longrightarrow>
        out_sent (admin_grant_coins admins d ud uid text) = [ReplyText ''User not found.''] \<and>
        out_store (admin_grant_coins admins d ud uid text) = d \<and>
        out_ret (admin_grant_coins admins d ud uid text) = Inr ADMIN_MENU)"
proof (intro conjI ballI impI)
  fix u
  assume u: "u \<in> set (users d)"
    and h: "u_user_id u = t \<and> int4_ok amt \<and> int4_ok (u_coins u + amt)"
  from add_coins_returns [OF wf u, of amt] h obtain d' where d': "add_coins d t amt = Inr d'"
    by auto
  have hu: "has_user d t" using u h by (auto simp: has_user_def)
  note g = admin_grant_store [OF inp hu d', of admins ud uid]
  have c: "coins_of d t = Some (u_coins u)" using wf_coins_of [OF wf u] h by simp
  show "coins_of (out_store (admin_grant_coins admins d ud uid text)) t = Some (u_coins u + amt)"
    using g c by (simp add: coins_of_add_coins [OF d'])
  show "\<forall>v. v \<noteq> t \<longrightarrow>
      coins_of (out_store (admin_grant_coins admins d ud uid text)) v = coins_of d v"
    using g by (simp add: coins_of_add_coins [OF d'])
  show "take 2 (out_sent (admin_grant_coins admins d ud uid text)) =
          [ReplyText (''Successfully granted '' @ py_str amt @ '' coins to user '' @
             py_str t @ ''.''),
           SendMessage t (''An admin has granted you '' @ py_str amt @ '' coins!'')]"
    using g by blast
next
  assume h: "\<not> has_user d t \<and> int8_ok t"
  then have r: "admin_grant_coins admins d ud uid text =
     \<lparr>out_sent = [ReplyText ''User not found.''], out_data = ud, out_store = d,
      out_ret = Inr ADMIN_MENU\<rparr>"
    using admin_grant_missing [OF inp] by blast
  show "out_sent (admin_grant_coins admins d ud uid text) = [ReplyText ''User not found.'']"
    "out_store (admin_grant_coins admins d ud uid text) = d"
    "out_ret (admin_grant_coins admins d ud uid text) = Inr ADMIN_MENU"
    by (simp_all add: r)
qed

theorem admin_coin_grant_witness:
  "wf_store store_bea \<and> coins_of store_bea 7 = Some 100 \<and>
   coins_of (out_store (admin_grant_coins [1] store_bea no_data 1 ''7 100'')) 7 = Some 200 \<and>
   \<not> has_user store_bea 8 \<and>
   out_sent (admin_grant_coins [1] store_bea no_data 1 ''8 100'') =
     [ReplyText ''User not found.''] \<and>
   out_store (admin_grant_coins [1] store_bea no_data 1 ''8 100'') = store_bea"
proof -
  have c0: "coins_of store_bea 7 = Some 100" by (simp add: coins_of_def store_bea_def)
  have n8: "\<not> has_user store_bea 8" by (simp add: has_user_def store_bea_def)
  from admin_coin_grant [OF wf_store_bea grant_texts(1,2,3), of "[1]" no_data 1] bea_row
  have a: "coins_of (out_store (admin_grant_coins [1] store_bea no_data 1 ''7 100'')) 7 =
      Some 200"
    by (auto simp: int4_ok_def)
  from admin_coin_grant [OF wf_store_bea grant_texts(4,5,3), of "[1]" no_data 1] n8
  have b: "out_sent (admin_grant_coins [1] store_bea no_data 1 ''8 100'') =
     [ReplyText ''User not found.''] \<and>
     out_store (admin_grant_coins [1] store_bea no_data 1 ''8 100'') = store_bea"
    by (simp add: int8_ok_def)
  show ?thesis using wf_store_bea c0 n8 a b by simp
qed

text \<open>
  C8 as stated fails for an amount that takes the balance out of the INTEGER column:
  granting 2147483647 to Bea, who holds 100, raises in the store and her balance is
  still 100.
\<close>

theorem grant_overflow_changes_nothing:
  "out_ret (admin_grant_coins [1] store_bea no_data 1 ''7 2147483647'') =
     Inl NumericValueOutOfRange \<and>
   coins_of (out_store (admin_grant_coins [1] store_bea no_data 1 ''7 2147483647'')) 7 =
     Some 100"
  by (simp add: admin_grant_coins_def Let_def grant_texts user_exists_def add_coins_def
      has_user_def int4_ok_def int8_ok_def is_value_error_def coins_of_def store_bea_def)

text \<open>
  Claim C6 (browsing termination: over a candidate list of length N, exactly N advances are
  renderable before the ``no more profiles'' outcome). The code at a concrete browse: in
  \<^term>\<open>store_club\<close>, user 1 searches for ``Female'', 20 to 30, and is shown candidate 2
  of the list \<^term>\<open>[2, 5] :: int list\<close>; the session is then \<^term>\<open>browsing_data\<close>.
  Candidate 5 has a photo. Pressing ``next'' (or ``like'') moves the cursor to 1 and calls
  \<^verbatim>\<open>view_profile(query, context)\<close>, whose photo branch reads
  \<^verbatim>\<open>update.effective_chat\<close>: a callback query has no such attribute, so the handler raises
  and candidate 5 is not rendered; the ``no more profiles'' outcome is not produced either.
  The same candidate in first position is rendered, since there \<^verbatim>\<open>view_profile\<close> is
  called with the update.
\<close>

theorem browse_photo_candidate_raises:
  "search_age_max (\<lambda>k. k) store_club asking_data 1 1 ''30'' =
     \<lparr>out_sent = [ReplyProfile profile_bea (like_next_keyboard 2)], out_data = browsing_data,
      out_store = store_club, out_ret = Inr VIEW_PROFILE\<rparr> \<and>
   search_results browsing_data = Some [2, 5] \<and>
   search_index browsing_data = Some 0 \<and>
   get_user_profile store_club 5 = Inr (Some profile_eve) \<and>
   f_photo_id profile_eve = Some ''ph5'' \<and>
   profile_callback store_club browsing_data 1 ''next_profile'' =
     \<lparr>out_sent = [Answer, DeleteMessage],
      out_data = browsing_data\<lparr>search_index := Some 1\<rparr>,
      out_store = store_club, out_ret = Inl AttributeError\<rparr> \<and>
   out_ret (profile_callback store_club browsing_data 1 ''like_2'') = Inl AttributeError \<and>
   view_profile store_club (browsing_data\<lparr>search_results := Some [5, 2]\<rparr>) (ViaUpdate 1) =
     ([SendPhoto 1 ''ph5'' profile_eve (like_next_keyboard 5)], Inr VIEW_PROFILE)"
proof -
  have "f_photo_id profile_eve = Some ''ph5''"
    by (simp add: profile_eve_def)
  moreover have "view_profile store_club (browsing_data\<lparr>search_results := Some [5, 2]\<rparr>)
      (ViaUpdate 1) = ([SendPhoto 1 ''ph5'' profile_eve (like_next_keyboard 5)], Inr VIEW_PROFILE)"
    by (simp add: view_profile_def py_get_def get_profile_club profile_eve_def browsing_data_def)
  ultimately show ?thesis
    by (simp only: search_club_data browsing_data_sel get_profile_club next_club_raises
        like_club_raises result.simps simp_thms)
qed

text \<open>
  C7. The handler of the AwaitingAge state (\<^verbatim>\<open>age\<close>). A text that
  \<^verbatim>\<open>int\<close> refuses, or that reads as an integer below 18 or above 99, leaves the
  store and the session data as they were and returns AGE again. A text that reads as an
  integer n from 18 to 99 returns BIO and the stored age of the user's profile is n,
  every other profile's age and the users table unchanged (the user has a profile row and
  an id that fits BIGINT, as every user has who came through \<^verbatim>\<open>/start\<close>). What
  counts as an integer is fixed from both sides: a text with a character that is no
  digit, sign or underscore and that \<^verbatim>\<open>int\<close> does not drop as white space is
  refused, and the decimal numeral of every integer k reads as k. So every outcome of
  \<^verbatim>\<open>int\<close>, the error and each integer, is the outcome for some text, and the
  first two parts cover every way the handler can go.
\<close>

theorem age_validation:
  "(py_int text = None \<or> (\<exists>n. py_int text = Some n \<and> (n < 18 \<or> 99 < n)) \<longrightarrow>
      out_store (age d ud uid text) = d \<and> out_data (age d ud uid text) = ud \<and>
      out_ret (age d ud uid text) = Inr AGE) \<and>
   (\<forall>n. py_int text = Some n \<and> 18 \<le> n \<and> n \<le> 99 \<and> int8_ok uid \<and> has_profile d uid \<longrightarrow>
      out_ret (age d ud uid text) = Inr BIO \<and>
      age_of (out_store (age d ud uid text)) uid = Some (Some n) \<and>
      (\<forall>v. v \<noteq> uid \<longrightarrow> age_of (out_store (age d ud uid text)) v = age_of d v) \<and>
      users (out_store (age d ud uid text)) = users d) \<and>
   ((\<exists>c\<in>set text. \<not> int_isspace c \<and> c \<notin> set ''0123456789+-_'') \<longrightarrow> py_int text = None) \<and>
   py_int (py_str k) = Some k"
proof (intro conjI impI allI)
  assume "py_int text = None \<or> (\<exists>n. py_int text = Some n \<and> (n < 18 \<or> 99 < n))"
  then have r: "age d ud uid text =
      \<lparr>out_sent = [ReplyText ''Please enter a valid age (between 18 and 99).''],
       out_data = ud, out_store = d, out_ret = Inr AGE\<rparr>"
    by (auto simp: age_def Let_def)
  show "out_store (age d ud uid text) = d" "out_data (age d ud uid text) = ud"
    "out_ret (age d ud uid text) = Inr AGE"
    by (simp_all add: r)
next
  fix n
  assume h: "py_int text = Some n \<and> 18 \<le> n \<and> n \<le> 99 \<and> int8_ok uid \<and> has_profile d uid"
  then have "int4_ok n" by (simp add: int4_ok_def)
  then have r: "age d ud uid text =
      \<lparr>out_sent = [ReplyText ''Got it. Now, write a short bio about yourself.''],
       out_data = ud, out_store = update_rows d uid (\<lambda>p. p\<lparr>p_age := Some n\<rparr>),
       out_ret = Inr BIO\<rparr>"
    using h by (simp add: age_def Let_def update_profile_age)
  show "out_ret (age d ud uid text) = Inr BIO" by (simp add: r)
  from age_of_has_profile obtain a where "age_of d uid = Some a" using h by blast
  then show "age_of (out_store (age d ud uid text)) uid = Some (Some n)"
    by (simp add: r age_of_update_rows)
  show "users (out_store (age d ud uid text)) = users d"
    by (simp add: r update_rows_def)
  show "age_of (out_store (age d ud uid text)) v = age_of d v" if "v \<noteq> uid" for v
    using that by (simp add: r age_of_update_rows)
next
  assume "\<exists>c\<in>set text. \<not> int_isspace c \<and> c \<notin> set ''0123456789+-_''"
  then show "py_int text = None" using py_int_foreign by blast
next
  show "py_int (py_str k) = Some k" by (rule py_int_py_str)
qed

theorem age_validation_witness:
  "out_ret (age store_asked no_data 7 ''old enough'') = Inr AGE \<and>
   out_store (age store_asked no_data 7 ''old enough'') = store_asked \<and>
   py_int ''17'' = Some 17 \<and> out_ret (age store_asked no_data 7 ''17'') = Inr AGE \<and>
   out_store (age store_asked no_data 7 ''17'') = store_asked \<and>
   text_27_fs = [CHR ''2'', CHR ''7'', CHR 0x1C] \<and>
   out_ret (age store_asked no_data 7 text_27_fs) = Inr AGE \<and>
   out_store (age store_asked no_data 7 text_27_fs) = store_asked \<and>
   py_int ''27'' = Some 27 \<and> out_ret (age store_asked no_data 7 ''27'') = Inr BIO \<and>
   age_of store_asked 7 = Some None \<and>
   age_of (out_store (age store_asked no_data 7 ''27'')) 7 = Some (Some 27) \<and>
   py_int '' 27 '' = Some 27 \<and> out_ret (age store_asked no_data 7 '' 27 '') = Inr BIO"
proof -
  have hp: "has_profile store_asked 7"
    by (simp add: has_profile_def store_asked_def new_profile_row_def)
  have i8: "int8_ok 7" by (simp add: int8_ok_def)
  have a0: "age_of store_asked 7 = Some None"
    by (simp add: age_of_def store_asked_def new_profile_row_def)
  have o: "CHR ''o'' \<in> set ''old enough'' \<and> \<not> int_isspace CHR ''o'' \<and>
      CHR ''o'' \<notin> set ''0123456789+-_''"
    by (simp add: int_isspace_def)
  note t1 = age_validation [of "''old enough''" store_asked no_data 7]
  note t2 = age_validation [of "''17''" store_asked no_data 7]
  note t3 = age_validation [of "''27''" store_asked no_data 7]
  note t4 = age_validation [of text_27_fs store_asked no_data 7]
  note t5 = age_validation [of "'' 27 ''" store_asked no_data 7]
  from t1 o have c1: "out_ret (age store_asked no_data 7 ''old enough'') = Inr AGE \<and>
     out_store (age store_asked no_data 7 ''old enough'') = store_asked" by blast
  from t2 py_int_17 have c2: "out_ret (age store_asked no_data 7 ''17'') = Inr AGE \<and>
     out_store (age store_asked no_data 7 ''17'') = store_asked" by simp
  from t3 py_int_27 hp i8 have c3: "out_ret (age store_asked no_data 7 ''27'') = Inr BIO \<and>
     age_of (out_store (age store_asked no_data 7 ''27'')) 7 = Some (Some 27)" by simp
  from t4 text_27_fs_foreign have c4: "out_ret (age store_asked no_data 7 text_27_fs) = Inr AGE \<and>
     out_store (age store_asked no_data 7 text_27_fs) = store_asked" by blast
  from t5 py_int_padded hp i8 have c5: "out_ret (age store_asked no_data 7 '' 27 '') = Inr BIO"
    by simp
  show ?thesis using c1 c2 c3 c4 c5 a0 py_int_17 py_int_27 py_int_padded
    by (simp add: text_27_fs_def)
qed

text \<open>
  C2, as the code has it. On a store that satisfies the schema's constraints, a fresh
  user A with an id that fits BIGINT is created with a referring code c; \<^verbatim>\<open>code\<close> is
  the referral code that \<^verbatim>\<open>create_user\<close> draws for A.

  When c is the referral code of a user B of the store (c not empty and B's id not 0,
  the two values Python's truth tests take for "no referrer"): every creation that
  returns leaves A in the store with a profile row, B's balance 50 higher and every
  other balance as it was, and a second call for A changes nothing; and the creation
  does return when the drawn code is not yet in use and B's new balance fits the
  INTEGER column. When c is no user's referral code and the drawn code is not yet in
  use, the creation returns, A is in the store and no balance has changed. When the
  drawn code is already in use, the creation raises and A is not created.
\<close>

theorem referral_credit_on_create:
  assumes wf: "wf_store d" and fresh: "\<not> has_user d A" and A: "int8_ok A"
  shows
    "(\<forall>b\<in>set (users d). u_referral_code b = c \<and> c \<noteq> [] \<and> u_user_id b \<noteq> 0 \<longrightarrow>
        (\<forall>d'. create_user d A nm (Some c) code = Inr d' \<longrightarrow>
           has_user d' A \<and> has_profile d' A \<and>
           coins_of d' (u_user_id b) = Some (u_coins b + 50) \<and>
           (\<forall>v\<in>set (users d). u_user_id v \<noteq> u_user_id b \<longrightarrow>
               coins_of d' (u_user_id v) = Some (u_coins v)) \<and>
           (\<forall>nm2 ref2 code2. create_user d' A nm2 ref2 code2 = Inr d')) \<and>
        (code \<notin> set (map u_referral_code (users d)) \<and> int4_ok (u_coins b + 50) \<longrightarrow>
           (\<exists>d'. create_user d A nm (Some c) code = Inr d'))) \<and>
     (c \<notin> set (map u_referral_code (users d)) \<and>
      code \<notin> set (map u_referral_code (users d)) \<longrightarrow>
        (\<exists>d'. create_user d A nm (Some c) code = Inr d' \<and> has_user d' A \<and>
           has_profile d' A \<and>
           (\<forall>v\<in>set (users d). coins_of d' (u_user_id v) = Some (u_coins v)))) \<and>
     (code \<in> set (map u_referral_code (users d)) \<longrightarrow>
        create_user d A nm ref code = Inl UniqueViolation)"
proof (intro conjI ballI impI allI)
  fix b d'
  assume b: "b \<in> set (users d)" and h: "u_referral_code b = c \<and> c \<noteq> [] \<and> u_user_id b \<noteq> 0"
    and run: "create_user d A nm (Some c) code = Inr d'"
  have look: "user_id_of_code d c = Some (u_user_id b)"
    using wf_lookup_code [OF wf b] h by simp
  note cr = create_user_credit [OF fresh look _ _ run]
  have bA: "u_user_id b \<noteq> A" using fresh b by (auto simp: has_user_def)
  show "has_user d' A" by (simp add: has_user_create [OF fresh run])
  show "has_profile d' A" by (rule create_user_profile [OF fresh run])
  show "coins_of d' (u_user_id b) = Some (u_coins b + 50)"
    using cr [of "u_user_id b"] h bA wf_coins_of [OF wf b] by simp
  show "create_user d' A nm2 ref2 code2 = Inr d'" for nm2 ref2 code2
    by (rule create_user_existing) (simp_all add: has_user_create [OF fresh run] A)
  fix v assume v: "v \<in> set (users d)" and ne: "u_user_id v \<noteq> u_user_id b"
  have "u_user_id v \<noteq> A" using fresh v by (auto simp: has_user_def)
  then show "coins_of d' (u_user_id v) = Some (u_coins v)"
    using cr [of "u_user_id v"] h ne wf_coins_of [OF wf v] by simp
next
  fix b
  assume b: "b \<in> set (users d)" and h: "u_referral_code b = c \<and> c \<noteq> [] \<and> u_user_id b \<noteq> 0"
    and rng: "code \<notin> set (map u_referral_code (users d)) \<and> int4_ok (u_coins b + 50)"
  have look: "user_id_of_code d c = Some (u_user_id b)"
    using wf_lookup_code [OF wf b] h by simp
  have tok: "code \<notin> set (map u_referral_code (users d))" using rng by simp
  have fits: "int4_ok (u_coins b + 50)" using rng by simp
  have "\<exists>d2. add_coins d (u_user_id b) 50 = Inr d2"
    by (rule add_coins_returns [OF wf b _ fits]) (simp add: int4_ok_def)
  then show "\<exists>d'. create_user d A nm (Some c) code = Inr d'"
    by (intro create_user_returns [OF A fresh wf_no_profile [OF wf fresh] tok])
       (simp add: lookup_code_tx look)
next
  assume h: "c \<notin> set (map u_referral_code (users d)) \<and>
      code \<notin> set (map u_referral_code (users d))"
  then have c: "c \<notin> set (map u_referral_code (users d))"
    and tok: "code \<notin> set (map u_referral_code (users d))" by simp_all
  have none: "user_id_of_code d c = None"
    using c by (auto simp: user_id_of_code_def fetch_first_None)
  have "add_coins d A 50 = Inr d"
    by (rule add_coins_no_user [OF fresh _ A]) (simp add: int4_ok_def)
  then have "\<exists>d'. create_user d A nm (Some c) code = Inr d'"
    by (intro create_user_returns [OF A fresh wf_no_profile [OF wf fresh] tok])
       (auto simp: lookup_code_tx none new_user_row_sel split: if_splits)
  then obtain d' where run: "create_user d A nm (Some c) code = Inr d'" ..
  have "coins_of d' (u_user_id v) = Some (u_coins v)" if v: "v \<in> set (users d)" for v
  proof -
    have "u_user_id v \<noteq> A" using fresh v by (auto simp: has_user_def)
    then show ?thesis
      using create_user_no_credit [OF fresh c run, of "u_user_id v"] wf_coins_of [OF wf v] by simp
  qed
  then show "\<exists>d'. create_user d A nm (Some c) code = Inr d' \<and> has_user d' A \<and>
           has_profile d' A \<and>
           (\<forall>v\<in>set (users d). coins_of d' (u_user_id v) = Some (u_coins v))"
    using run has_user_create [OF fresh run, of A] create_user_profile [OF fresh run] by auto
next
  assume "code \<in> set (map u_referral_code (users d))"
  then show "create_user d A nm ref code = Inl UniqueViolation"
    by (rule create_user_collision [OF fresh A])
qed

theorem referral_credit_on_create_witness:
  "wf_store store_bea \<and> \<not> has_user store_bea 9 \<and> int8_ok 9 \<and>
   coins_of store_bea 7 = Some 100 \<and>
   create_user store_bea 9 ''Al'' (Some ''7ab3c9d2'') ''0f1e2d3c'' = Inr store_al \<and>
   has_user store_al 9 \<and> has_profile store_al 9 \<and> coins_of store_al 7 = Some 150 \<and>
   create_user store_al 9 ''Al'' (Some ''7ab3c9d2'') ''1a2b3c4d'' = Inr store_al \<and>
   (\<exists>d'. create_user store_bea 9 ''Al'' (Some ''deadbeef'') ''0f1e2d3c'' = Inr d' \<and>
      has_user d' 9 \<and> has_profile d' 9 \<and> coins_of d' 7 = Some 100) \<and>
   create_user store_bea 9 ''Al'' None ''7ab3c9d2'' = Inl UniqueViolation"
proof -
  have h2: "\<not> has_user store_bea 9" by (simp add: has_user_def store_bea_def)
  have h3: "int8_ok 9" by (simp add: int8_ok_def)
  have c0: "coins_of store_bea 7 = Some 100" by (simp add: coins_of_def store_bea_def)
  note t = referral_credit_on_create [OF wf_store_bea h2 h3]
  from t [of "''7ab3c9d2''" "''Al''" "''0f1e2d3c''"] create_al
  have a: "has_user store_al 9 \<and> has_profile store_al 9 \<and> coins_of store_al 7 = Some 150 \<and>
     create_user store_al 9 ''Al'' (Some ''7ab3c9d2'') ''1a2b3c4d'' = Inr store_al"
    by (simp add: store_bea_def)
  from t [of "''deadbeef''" "''Al''" "''0f1e2d3c''"]
  have b: "\<exists>d'. create_user store_bea 9 ''Al'' (Some ''deadbeef'') ''0f1e2d3c'' = Inr d' \<and>
      has_user d' 9 \<and> has_profile d' 9 \<and> coins_of d' 7 = Some 100"
    by (simp add: store_bea_def)
  from t [of "''deadbeef''" "''Al''" "''7ab3c9d2''" None]
  have c: "create_user store_bea 9 ''Al'' None ''7ab3c9d2'' = Inl UniqueViolation"
    by (simp add: store_bea_def)
  show ?thesis using wf_store_bea h2 h3 c0 create_al a b c by blast
qed

text \<open>
  C2 as stated fails. Al (id 9) is created on the store that holds Bea, with the referring
  code \<^verbatim>\<open>deadbeef\<close>, which is no user's referral code; the code drawn for Al is the
  one Bea already has. The insert violates the UNIQUE constraint, the call raises, and Al
  is not created. And with Bea's code as the referring code, on the store where Bea holds
  2147483647 coins: the credit overflows the INTEGER column, the call raises, Bea's
  balance is not 50 higher and Al is not created.
\<close>

theorem drawn_code_in_use_aborts_creation:
  "\<not> has_user store_bea 9 \<and>
   user_id_of_code store_bea ''deadbeef'' = None \<and>
   create_user_run store_bea 9 ''Al'' (Some ''deadbeef'') ''7ab3c9d2'' =
     ([], Inl UniqueViolation) \<and>
   user_id_of_code store_rich ''7ab3c9d2'' = Some 7 \<and>
   coins_of store_rich 7 = Some 2147483647 \<and>
   create_user_run store_rich 9 ''Al'' (Some ''7ab3c9d2'') ''0f1e2d3c'' =
     ([], Inl NumericValueOutOfRange)"
  by (simp add: store_eval store_bea_def store_rich_def)




end
